theory Spec2Isabelle
  imports Complex_Main "HOL-Library.Word"
begin

section \<open>The numeric type \<open>T\<close>\<close>

text \<open>
  Every class of the library is a template over an arithmetic type \<open>T\<close> (\<open>double\<close> by
  default).  The embedding takes for \<open>T\<close> the real numbers, extended by the three special
  values of IEEE 754 that the library's operations produce where the real operation is
  undefined: the two infinities and NaN.  Finite values are exact reals: no rounding, no
  overflow and no underflow.  The two zeros of IEEE 754 are one value, \<open>Fin 0\<close>, taken as
  the positive zero where a sign is needed (the sign of \<open>x / 0\<close>).
\<close>

datatype fp = Fin real | PInf | NInf | NaN

instantiation fp :: "{zero, plus, uminus, minus, times, inverse, ord}"
begin

definition zero_fp :: fp where
  "zero_fp = Fin 0"

fun plus_fp :: "fp \<Rightarrow> fp \<Rightarrow> fp" where
  "plus_fp NaN y = NaN"
| "plus_fp x NaN = NaN"
| "plus_fp (Fin a) (Fin b) = Fin (a + b)"
| "plus_fp PInf NInf = NaN"
| "plus_fp NInf PInf = NaN"
| "plus_fp PInf y = PInf"
| "plus_fp x PInf = PInf"
| "plus_fp NInf y = NInf"
| "plus_fp x NInf = NInf"

fun uminus_fp :: "fp \<Rightarrow> fp" where
  "uminus_fp (Fin a) = Fin (- a)"
| "uminus_fp PInf = NInf"
| "uminus_fp NInf = PInf"
| "uminus_fp NaN = NaN"

definition minus_fp :: "fp \<Rightarrow> fp \<Rightarrow> fp" where
  "minus_fp x y = x + (- y)"

fun times_fp :: "fp \<Rightarrow> fp \<Rightarrow> fp" where
  "times_fp NaN y = NaN"
| "times_fp x NaN = NaN"
| "times_fp (Fin a) (Fin b) = Fin (a * b)"
| "times_fp (Fin a) PInf = (if a = 0 then NaN else if 0 < a then PInf else NInf)"
| "times_fp (Fin a) NInf = (if a = 0 then NaN else if 0 < a then NInf else PInf)"
| "times_fp PInf (Fin b) = (if b = 0 then NaN else if 0 < b then PInf else NInf)"
| "times_fp NInf (Fin b) = (if b = 0 then NaN else if 0 < b then NInf else PInf)"
| "times_fp PInf PInf = PInf"
| "times_fp PInf NInf = NInf"
| "times_fp NInf PInf = NInf"
| "times_fp NInf NInf = PInf"

fun divide_fp :: "fp \<Rightarrow> fp \<Rightarrow> fp" where
  "divide_fp NaN y = NaN"
| "divide_fp x NaN = NaN"
| "divide_fp (Fin a) (Fin b) =
     (if b = 0 then (if a = 0 then NaN else if 0 < a then PInf else NInf)
      else Fin (a / b))"
| "divide_fp (Fin a) PInf = Fin 0"
| "divide_fp (Fin a) NInf = Fin 0"
| "divide_fp PInf (Fin b) = (if 0 \<le> b then PInf else NInf)"
| "divide_fp NInf (Fin b) = (if 0 \<le> b then NInf else PInf)"
| "divide_fp PInf y = NaN"
| "divide_fp NInf y = NaN"

definition inverse_fp :: "fp \<Rightarrow> fp" where
  "inverse_fp x = divide (Fin 1) x"

text \<open>Comparisons: every comparison with NaN is false.\<close>

fun less_fp :: "fp \<Rightarrow> fp \<Rightarrow> bool" where
  "less_fp NaN y = False"
| "less_fp x NaN = False"
| "less_fp (Fin a) (Fin b) = (a < b)"
| "less_fp x NInf = False"
| "less_fp PInf y = False"
| "less_fp NInf y = True"
| "less_fp x PInf = True"

fun less_eq_fp :: "fp \<Rightarrow> fp \<Rightarrow> bool" where
  "less_eq_fp NaN y = False"
| "less_eq_fp x NaN = False"
| "less_eq_fp (Fin a) (Fin b) = (a \<le> b)"
| "less_eq_fp NInf y = True"
| "less_eq_fp x PInf = True"
| "less_eq_fp x NInf = False"
| "less_eq_fp PInf y = False"

instance ..

end

text \<open>\<open>std::sqrt\<close>, \<open>std::exp\<close>, \<open>std::log\<close> and \<open>std::max\<close> on \<open>T\<close>.\<close>

fun std_sqrt :: "fp \<Rightarrow> fp" where
  "std_sqrt (Fin a) = (if a < 0 then NaN else Fin (sqrt a))"
| "std_sqrt PInf = PInf"
| "std_sqrt NInf = NaN"
| "std_sqrt NaN = NaN"

fun std_exp :: "fp \<Rightarrow> fp" where
  "std_exp (Fin a) = Fin (exp a)"
| "std_exp PInf = PInf"
| "std_exp NInf = Fin 0"
| "std_exp NaN = NaN"

fun std_log :: "fp \<Rightarrow> fp" where
  "std_log (Fin a) = (if a < 0 then NaN else if a = 0 then NInf else Fin (ln a))"
| "std_log PInf = PInf"
| "std_log NInf = NaN"
| "std_log NaN = NaN"

text \<open>\<open>std::max(a, b)\<close> is \<open>(a < b) ? b : a\<close>.\<close>

definition std_max :: "fp \<Rightarrow> fp \<Rightarrow> fp" where
  "std_max a b = (if a < b then b else a)"

text \<open>\<open>std::abs\<close>, as the assertions of \<open>demos/math_demo.cpp\<close> use it.\<close>

fun std_abs :: "fp \<Rightarrow> fp" where
  "std_abs (Fin a) = Fin \<bar>a\<bar>"
| "std_abs PInf = PInf"
| "std_abs NInf = PInf"
| "std_abs NaN = NaN"

definition is_finite :: "fp \<Rightarrow> bool" where
  "is_finite x = (case x of Fin a \<Rightarrow> True | _ \<Rightarrow> False)"

text \<open>A divisor that makes every quotient non-finite: zero or NaN.\<close>

definition zero_or_nan :: "fp \<Rightarrow> bool" where
  "zero_or_nan y = (y = Fin 0 \<or> y = NaN)"

text \<open>The conversion of a \<open>size_t\<close> to \<open>T\<close>, and \<open>size_t\<close> itself (64 bits).\<close>

type_synonym size_t = "64 word"

definition of_size_t :: "size_t \<Rightarrow> fp" where
  "of_size_t n = Fin (real (unat n))"


section \<open>Normal distribution primitives (\<open>ito/utils/math.hpp\<close>)\<close>

definition inv_sqrt_2pi :: fp where
  "inv_sqrt_2pi = Fin (1 / sqrt pi) / Fin (sqrt 2)"

definition normal_pdf :: "fp \<Rightarrow> fp" where
  "normal_pdf x = inv_sqrt_2pi * std_exp (((- x) * x) / Fin 2)"

function normal_cdf :: "fp \<Rightarrow> fp" where
  "normal_cdf x =
     (if x < Fin 0 then Fin 1 - normal_cdf (- x)
      else
        let a1 = Fin 0.319381530;
            a2 = Fin (- 0.356563782);
            a3 = Fin 1.781477937;
            a4 = Fin (- 1.821255978);
            a5 = Fin 1.330274429;
            p = Fin 0.2316419;
            t = Fin 1 / (Fin 1 + p * x);
            poly = t * (a1 + t * (a2 + t * (a3 + t * (a4 + t * a5))))
        in Fin 1 - normal_pdf x * poly)"
  by pat_completeness auto
termination
proof (relation "measure (\<lambda>x. if x < Fin 0 then 1 else 0)")
  show "wf (measure (\<lambda>x::fp. if x < Fin 0 then 1 else 0))"
    by simp
next
  fix x :: fp
  assume "x < Fin 0"
  then show "(- x, x) \<in> measure (\<lambda>x. if x < Fin 0 then 1 else 0)"
    by (cases x) auto
qed

declare normal_cdf.simps [simp del]

section \<open>The analytical model (\<open>ito/model/black_scholes_model.hpp\<close>)\<close>

datatype error = invalid_argument string

record BlackScholesCreateInfo =
  spot_price :: fp
  strike_price :: fp
  risk_free_rate :: fp
  volatility :: fp
  time_to_maturity :: fp

definition validate :: "BlackScholesCreateInfo \<Rightarrow> error + unit" where
  "validate info =
     (if spot_price info \<le> Fin 0 then
        Inl (invalid_argument ''Spot price must be positive'')
      else if strike_price info \<le> Fin 0 then
        Inl (invalid_argument ''Strike price must be positive'')
      else if volatility info < Fin 0 then
        Inl (invalid_argument ''Volatility cannot be negative'')
      else if time_to_maturity info \<le> Fin 0 then
        Inl (invalid_argument ''Time to maturity must be positive'')
      else Inr ())"

record Greeks =
  delta :: fp
  gamma :: fp
  vega :: fp
  theta :: fp
  rho :: fp

text \<open>
  The object: the five stored parameters and the mutable caches.  A member \<open>x_\<close> of the
  class is the field \<open>m_x\<close> of the record.
\<close>

record BlackScholesModel =
  m_S :: fp
  m_K :: fp
  m_r :: fp
  m_sigma :: fp
  m_T :: fp
  m_d1 :: fp
  m_d2 :: fp
  m_d_cached :: bool
  m_call_greeks :: Greeks
  m_put_greeks :: Greeks
  m_call_greeks_cached :: bool
  m_put_greeks_cached :: bool

definition Greeks_default :: Greeks where
  "Greeks_default = \<lparr>delta = Fin 0, gamma = Fin 0, vega = Fin 0, theta = Fin 0, rho = Fin 0\<rparr>"

text \<open>
  The constructor: the member initialisers copy the create info and clear \<open>d_cached_\<close>
  (the default member initialisers give the other caches), then the body validates; when
  \<open>validate\<close> throws, no object exists.
\<close>

definition member_init :: "BlackScholesCreateInfo \<Rightarrow> BlackScholesModel" where
  "member_init info =
     \<lparr>m_S = spot_price info, m_K = strike_price info, m_r = risk_free_rate info,
      m_sigma = volatility info, m_T = time_to_maturity info,
      m_d1 = Fin 0, m_d2 = Fin 0, m_d_cached = False,
      m_call_greeks = Greeks_default, m_put_greeks = Greeks_default,
      m_call_greeks_cached = False, m_put_greeks_cached = False\<rparr>"

definition BlackScholesModel_new :: "BlackScholesCreateInfo \<Rightarrow> error + BlackScholesModel" where
  "BlackScholesModel_new info =
     (let m = member_init info
      in case validate info of Inl e \<Rightarrow> Inl e | Inr u \<Rightarrow> Inr m)"

text \<open>The \<open>const\<close> methods write the \<open>mutable\<close> caches: each takes the object and returns it.\<close>

definition compute_d :: "BlackScholesModel \<Rightarrow> BlackScholesModel" where
  "compute_d m =
     (if m_d_cached m then m
      else
        let sqrt_T = std_sqrt (m_T m);
            sigma_sqrt_T = m_sigma m * sqrt_T;
            m1 = m\<lparr>m_d1 := (std_log (m_S m / m_K m) + (m_r m + m_sigma m * m_sigma m / Fin 2) * m_T m)
                          / sigma_sqrt_T\<rparr>;
            m2 = m1\<lparr>m_d2 := m_d1 m1 - sigma_sqrt_T\<rparr>
        in m2\<lparr>m_d_cached := True\<rparr>)"

definition compute_call_greeks :: "BlackScholesModel \<Rightarrow> BlackScholesModel" where
  "compute_call_greeks m0 =
     (if m_call_greeks_cached m0 then m0
      else
        let m = compute_d m0;
            sqrt_T = std_sqrt (m_T m);
            exp_neg_rT = std_exp ((- m_r m) * m_T m);
            phi_d1 = normal_pdf (m_d1 m);
            g = m_call_greeks m;
            g = g\<lparr>delta := normal_cdf (m_d1 m)\<rparr>;
            g = g\<lparr>gamma := phi_d1 / (m_S m * m_sigma m * sqrt_T)\<rparr>;
            g = g\<lparr>vega := m_S m * phi_d1 * sqrt_T\<rparr>;
            g = g\<lparr>theta := (- (m_S m * phi_d1 * m_sigma m)) / (Fin 2 * sqrt_T)
                              - m_r m * m_K m * exp_neg_rT * normal_cdf (m_d2 m)\<rparr>;
            g = g\<lparr>rho := m_K m * m_T m * exp_neg_rT * normal_cdf (m_d2 m)\<rparr>
        in m\<lparr>m_call_greeks := g, m_call_greeks_cached := True\<rparr>)"

definition compute_put_greeks :: "BlackScholesModel \<Rightarrow> BlackScholesModel" where
  "compute_put_greeks m0 =
     (if m_put_greeks_cached m0 then m0
      else
        let m = compute_d m0;
            sqrt_T = std_sqrt (m_T m);
            exp_neg_rT = std_exp ((- m_r m) * m_T m);
            phi_d1 = normal_pdf (m_d1 m);
            g = m_put_greeks m;
            g = g\<lparr>delta := normal_cdf (m_d1 m) - Fin 1\<rparr>;
            g = g\<lparr>gamma := phi_d1 / (m_S m * m_sigma m * sqrt_T)\<rparr>;
            g = g\<lparr>vega := m_S m * phi_d1 * sqrt_T\<rparr>;
            g = g\<lparr>theta := (- (m_S m * phi_d1 * m_sigma m)) / (Fin 2 * sqrt_T)
                              + m_r m * m_K m * exp_neg_rT * normal_cdf (- m_d2 m)\<rparr>;
            g = g\<lparr>rho := (- m_K m) * m_T m * exp_neg_rT * normal_cdf (- m_d2 m)\<rparr>
        in m\<lparr>m_put_greeks := g, m_put_greeks_cached := True\<rparr>)"

definition call_price :: "BlackScholesModel \<Rightarrow> fp \<times> BlackScholesModel" where
  "call_price m0 =
     (let m = compute_d m0;
          C = m_S m * normal_cdf (m_d1 m) - m_K m * std_exp ((- m_r m) * m_T m) * normal_cdf (m_d2 m)
      in (C, m))"

definition put_price :: "BlackScholesModel \<Rightarrow> fp \<times> BlackScholesModel" where
  "put_price m0 =
     (let (C, m) = call_price m0;
          P = C - m_S m + m_K m * std_exp ((- m_r m) * m_T m)
      in (P, m))"

definition call_greeks :: "BlackScholesModel \<Rightarrow> Greeks \<times> BlackScholesModel" where
  "call_greeks m0 = (let m = compute_call_greeks m0 in (m_call_greeks m, m))"

definition put_greeks :: "BlackScholesModel \<Rightarrow> Greeks \<times> BlackScholesModel" where
  "put_greeks m0 = (let m = compute_put_greeks m0 in (m_put_greeks m, m))"

text \<open>
  A client of the class calls the four public methods in any order, any number of times.
  \<open>invoke\<close> is one such call, keeping the object and dropping the value returned.
\<close>

datatype public_method = CallPrice | PutPrice | CallGreeks | PutGreeks

fun invoke :: "public_method \<Rightarrow> BlackScholesModel \<Rightarrow> BlackScholesModel" where
  "invoke CallPrice m = snd (call_price m)"
| "invoke PutPrice m = snd (put_price m)"
| "invoke CallGreeks m = snd (call_greeks m)"
| "invoke PutGreeks m = snd (put_greeks m)"

definition after_calls :: "public_method list \<Rightarrow> BlackScholesModel \<Rightarrow> BlackScholesModel" where
  "after_calls ms m = fold invoke ms m"


text \<open>
  Two contracts for concrete runs: the reference contract of the demos
  (\<open>S = K = 100\<close>, \<open>r = 0.05\<close>, \<open>\<sigma> = 0.20\<close>, \<open>T = 1\<close>), and an at-the-money contract
  with zero rate and zero volatility.
\<close>

definition reference_contract :: BlackScholesCreateInfo where
  "reference_contract =
     \<lparr>spot_price = Fin 100, strike_price = Fin 100, risk_free_rate = Fin 0.05,
      volatility = Fin 0.20, time_to_maturity = Fin 1\<rparr>"

definition zero_vol_contract :: BlackScholesCreateInfo where
  "zero_vol_contract =
     \<lparr>spot_price = Fin 100, strike_price = Fin 100, risk_free_rate = Fin 0,
      volatility = Fin 0, time_to_maturity = Fin 1\<rparr>"

subsection \<open>The analytical formulas, as the specification words them\<close>

text \<open>
  Pure functions of the five parameters, with no cache: \<open>d1\<close>, \<open>d2\<close>, the two prices and the
  two sets of Greeks.
\<close>

definition spec_d1 :: "BlackScholesCreateInfo \<Rightarrow> fp" where
  "spec_d1 info =
     (let S = spot_price info; K = strike_price info; r = risk_free_rate info;
          sigma = volatility info; T = time_to_maturity info
      in (std_log (S / K) + (r + sigma * sigma / Fin 2) * T) / (sigma * std_sqrt T))"

definition spec_d2 :: "BlackScholesCreateInfo \<Rightarrow> fp" where
  "spec_d2 info = spec_d1 info - volatility info * std_sqrt (time_to_maturity info)"

definition spec_call_price :: "BlackScholesCreateInfo \<Rightarrow> fp" where
  "spec_call_price info =
     (let S = spot_price info; K = strike_price info; r = risk_free_rate info;
          T = time_to_maturity info
      in S * normal_cdf (spec_d1 info) - K * std_exp (- (r * T)) * normal_cdf (spec_d2 info))"

definition spec_put_price :: "BlackScholesCreateInfo \<Rightarrow> fp" where
  "spec_put_price info =
     (let S = spot_price info; K = strike_price info; r = risk_free_rate info;
          T = time_to_maturity info
      in spec_call_price info - S + K * std_exp (- (r * T)))"

definition spec_call_greeks :: "BlackScholesCreateInfo \<Rightarrow> Greeks" where
  "spec_call_greeks info =
     (let S = spot_price info; K = strike_price info; r = risk_free_rate info;
          sigma = volatility info; T = time_to_maturity info;
          d1 = spec_d1 info; d2 = spec_d2 info
      in \<lparr>delta = normal_cdf d1,
          gamma = normal_pdf d1 / (S * sigma * std_sqrt T),
          vega = S * normal_pdf d1 * std_sqrt T,
          theta = (- (S * normal_pdf d1 * sigma)) / (Fin 2 * std_sqrt T)
                    - r * K * std_exp (- (r * T)) * normal_cdf d2,
          rho = K * T * std_exp (- (r * T)) * normal_cdf d2\<rparr>)"

definition spec_put_greeks :: "BlackScholesCreateInfo \<Rightarrow> Greeks" where
  "spec_put_greeks info =
     (let S = spot_price info; K = strike_price info; r = risk_free_rate info;
          sigma = volatility info; T = time_to_maturity info;
          d1 = spec_d1 info; d2 = spec_d2 info
      in \<lparr>delta = normal_cdf d1 - Fin 1,
          gamma = gamma (spec_call_greeks info),
          vega = vega (spec_call_greeks info),
          theta = (- (S * normal_pdf d1 * sigma)) / (Fin 2 * std_sqrt T)
                    + r * K * std_exp (- (r * T)) * normal_cdf (- d2),
          rho = - (K * T * std_exp (- (r * T)) * normal_cdf (- d2))\<rparr>)"

text \<open>
  What the caches of an object built from \<open>info\<close> hold: the parameters are those of
  \<open>info\<close>, and each cache whose flag is set holds the value of the formula.
\<close>

definition cache_inv :: "BlackScholesCreateInfo \<Rightarrow> BlackScholesModel \<Rightarrow> bool" where
  "cache_inv info m =
     (m_S m = spot_price info \<and> m_K m = strike_price info \<and> m_r m = risk_free_rate info \<and>
      m_sigma m = volatility info \<and> m_T m = time_to_maturity info \<and>
      (m_d_cached m \<longrightarrow> m_d1 m = spec_d1 info \<and> m_d2 m = spec_d2 info) \<and>
      (m_call_greeks_cached m \<longrightarrow> m_d_cached m \<and> m_call_greeks m = spec_call_greeks info) \<and>
      (m_put_greeks_cached m \<longrightarrow> m_d_cached m \<and> m_put_greeks m = spec_put_greeks info))"

section \<open>The simulation engine (\<open>ito/method/monte_carlo.hpp\<close>)\<close>

datatype ExecutionPolicy = Auto | Sequential | Parallel

record MonteCarloCreateInfo =
  num_simulations :: size_t
  seed :: "32 word"
  policy :: ExecutionPolicy

record MonteCarloResult =
  price :: fp
  standard_error :: fp

definition confidence_interval :: "MonteCarloResult \<Rightarrow> fp" where
  "confidence_interval res = Fin 1.96 * standard_error res"

text \<open>
  \<open>std::mt19937\<close> and \<open>std::normal_distribution\<close> belong to the C++ standard library.
  The type \<open>'g\<close> is the joint state of the members \<open>rng_\<close> and \<open>normal_\<close>; seeding
  (\<open>mt19937\<close>) and drawing one variate (\<open>normal\<close>, the call \<open>normal_(rng_)\<close>) are
  parameters.  Both members are \<open>mutable\<close>, so every method that draws returns the
  pricer with the advanced state.
\<close>

record 'g MonteCarloPricer =
  m_config :: MonteCarloCreateInfo
  m_rng :: 'g

definition MonteCarloPricer_new ::
  "(32 word \<Rightarrow> 'g) \<Rightarrow> MonteCarloCreateInfo \<Rightarrow> 'g MonteCarloPricer" where
  "MonteCarloPricer_new mt19937 config = \<lparr>m_config = config, m_rng = mt19937 (seed config)\<rparr>"

record CallPutResult =
  call :: MonteCarloResult
  put :: MonteCarloResult

definition simulate_gbm_terminal ::
  "('g \<Rightarrow> fp \<times> 'g) \<Rightarrow> fp \<Rightarrow> fp \<Rightarrow> fp \<Rightarrow> fp \<Rightarrow> 'g \<Rightarrow> fp \<times> 'g" where
  "simulate_gbm_terminal normal S0 r sigma time g =
     (let (Z, g') = normal g;
          drift = (r - (sigma * sigma) / Fin 2) * time;
          diffusion = sigma * std_sqrt time * Z
      in (S0 * std_exp (drift + diffusion), g'))"

text \<open>
  \<open>N\<close> is a \<open>size_t\<close>: \<open>N - 1\<close> is computed in \<open>size_t\<close> (it wraps at \<open>N = 0\<close>) and then
  converted to \<open>T\<close>, as \<open>N\<close> is in \<open>sum / N\<close> and \<open>variance / N\<close>.
\<close>

definition compute_statistics :: "fp list \<Rightarrow> fp \<Rightarrow> MonteCarloResult" where
  "compute_statistics payoffs discount_factor =
     (let N = (word_of_nat (length payoffs) :: size_t);
          sum = fold (\<lambda>payoff acc. acc + payoff) payoffs (Fin 0);
          mean = sum / of_size_t N;
          variance = fold (\<lambda>payoff variance.
                             let diff = payoff - mean in variance + diff * diff)
                          payoffs (Fin 0);
          variance = variance / of_size_t (N - 1);
          std_error = std_sqrt (variance / of_size_t N)
      in \<lparr>price = discount_factor * mean, standard_error = discount_factor * std_error\<rparr>)"

text \<open>
  The loop of the sequential path, \<open>n\<close> iterations to go: one draw, then both payoffs
  pushed back.
\<close>

fun sequential_loop ::
  "('g \<Rightarrow> fp \<times> 'g) \<Rightarrow> fp \<Rightarrow> fp \<Rightarrow> fp \<Rightarrow> fp \<Rightarrow> fp \<Rightarrow> nat
     \<Rightarrow> 'g \<times> fp list \<times> fp list \<Rightarrow> 'g \<times> fp list \<times> fp list" where
  "sequential_loop normal S0 K r sigma time 0 st = st"
| "sequential_loop normal S0 K r sigma time (Suc n) (g, call_payoffs, put_payoffs) =
     (let (ST, g') = simulate_gbm_terminal normal S0 r sigma time g
      in sequential_loop normal S0 K r sigma time n
           (g', call_payoffs @ [std_max (ST - K) (Fin 0)],
                put_payoffs @ [std_max (K - ST) (Fin 0)]))"

definition sequential_payoffs ::
  "('g \<Rightarrow> fp \<times> 'g) \<Rightarrow> 'g MonteCarloPricer \<Rightarrow> fp \<Rightarrow> fp \<Rightarrow> fp \<Rightarrow> fp \<Rightarrow> fp
     \<Rightarrow> 'g \<times> fp list \<times> fp list" where
  "sequential_payoffs normal p S0 K r sigma time =
     sequential_loop normal S0 K r sigma time (unat (num_simulations (m_config p)))
       (m_rng p, [], [])"

definition price_european_call_and_put_sequential ::
  "('g \<Rightarrow> fp \<times> 'g) \<Rightarrow> 'g MonteCarloPricer \<Rightarrow> fp \<Rightarrow> fp \<Rightarrow> fp \<Rightarrow> fp \<Rightarrow> fp
     \<Rightarrow> CallPutResult \<times> 'g MonteCarloPricer" where
  "price_european_call_and_put_sequential normal p S0 K r sigma time =
     (let (g, call_payoffs, put_payoffs) = sequential_payoffs normal p S0 K r sigma time;
          DF = std_exp ((- r) * time)
      in (\<lparr>call = compute_statistics call_payoffs DF,
           put = compute_statistics put_payoffs DF\<rparr>,
          p\<lparr>m_rng := g\<rparr>))"

text \<open>
  The draw loop of the parallel path: \<open>random_normals[i] = normal_(rng_)\<close> for
  \<open>i = 0, \<dots>, N - 1\<close>, on a vector of \<open>N\<close> elements.
\<close>

function draw_loop ::
  "('g \<Rightarrow> fp \<times> 'g) \<Rightarrow> nat \<Rightarrow> nat \<Rightarrow> 'g \<times> fp list \<Rightarrow> 'g \<times> fp list" where
  "draw_loop normal N i (g, random_normals) =
     (if i < N then
        (let (Z, g') = normal g
         in draw_loop normal N (Suc i) (g', random_normals[i := Z]))
      else (g, random_normals))"
  by pat_completeness auto
termination
  by (relation "measure (\<lambda>(normal, N, i, st). N - i)") auto

declare draw_loop.simps [simp del]

text \<open>
  The three \<open>std::transform\<close> calls write \<open>f(in[i])\<close> to \<open>out[i]\<close> for every index, with
  a pure \<open>f\<close>: each is a \<open>map\<close>, whatever the order in which the elements are processed.
\<close>

definition parallel_payoffs ::
  "('g \<Rightarrow> fp \<times> 'g) \<Rightarrow> 'g MonteCarloPricer \<Rightarrow> fp \<Rightarrow> fp \<Rightarrow> fp \<Rightarrow> fp \<Rightarrow> fp
     \<Rightarrow> 'g \<times> fp list \<times> fp list" where
  "parallel_payoffs normal p S0 K r sigma time =
     (let N = unat (num_simulations (m_config p));
          (g, random_normals) = draw_loop normal N 0 (m_rng p, replicate N (Fin 0));
          drift = (r - (sigma * sigma) / Fin 2) * time;
          vol_sqrt_t = sigma * std_sqrt time;
          terminal_prices = map (\<lambda>Z. S0 * std_exp (drift + vol_sqrt_t * Z)) random_normals;
          call_payoffs = map (\<lambda>ST. std_max (ST - K) (Fin 0)) terminal_prices;
          put_payoffs = map (\<lambda>ST. std_max (K - ST) (Fin 0)) terminal_prices
      in (g, call_payoffs, put_payoffs))"

definition price_european_call_and_put_parallel ::
  "('g \<Rightarrow> fp \<times> 'g) \<Rightarrow> 'g MonteCarloPricer \<Rightarrow> fp \<Rightarrow> fp \<Rightarrow> fp \<Rightarrow> fp \<Rightarrow> fp
     \<Rightarrow> CallPutResult \<times> 'g MonteCarloPricer" where
  "price_european_call_and_put_parallel normal p S0 K r sigma time =
     (let (g, call_payoffs, put_payoffs) = parallel_payoffs normal p S0 K r sigma time;
          DF = std_exp ((- r) * time)
      in (\<lparr>call = compute_statistics call_payoffs DF,
           put = compute_statistics put_payoffs DF\<rparr>,
          p\<lparr>m_rng := g\<rparr>))"

definition price_european_call_and_put ::
  "('g \<Rightarrow> fp \<times> 'g) \<Rightarrow> 'g MonteCarloPricer \<Rightarrow> fp \<Rightarrow> fp \<Rightarrow> fp \<Rightarrow> fp \<Rightarrow> fp
     \<Rightarrow> CallPutResult \<times> 'g MonteCarloPricer" where
  "price_european_call_and_put normal p S0 K r sigma time =
     (case policy (m_config p) of
        Sequential \<Rightarrow> price_european_call_and_put_sequential normal p S0 K r sigma time
      | Parallel \<Rightarrow> price_european_call_and_put_parallel normal p S0 K r sigma time
      | Auto \<Rightarrow>
          if 10000 \<le> num_simulations (m_config p) then
            price_european_call_and_put_parallel normal p S0 K r sigma time
          else price_european_call_and_put_sequential normal p S0 K r sigma time)"

subsection \<open>The variate sequence and the terminal price, as the specification words them\<close>

text \<open>The first \<open>n\<close> variates drawn from the state \<open>g\<close>, in order, and the state after them.\<close>

fun draws :: "('g \<Rightarrow> fp \<times> 'g) \<Rightarrow> nat \<Rightarrow> 'g \<Rightarrow> fp list \<times> 'g" where
  "draws normal 0 g = ([], g)"
| "draws normal (Suc n) g =
     (let (Z, g') = normal g; (Zs, g'') = draws normal n g' in (Z # Zs, g''))"

text \<open>\<open>S(T) = S0 \<sqdot> exp((r - \<sigma>\<^sup>2/2)\<tau> + \<sigma>\<surd>\<tau> \<sqdot> Z)\<close>.\<close>

definition terminal_price :: "fp \<Rightarrow> fp \<Rightarrow> fp \<Rightarrow> fp \<Rightarrow> fp \<Rightarrow> fp" where
  "terminal_price S0 r sigma time Z =
     S0 * std_exp ((r - sigma * sigma / Fin 2) * time + sigma * std_sqrt time * Z)"

text \<open>A source of variates for concrete runs: the state counts the draws, the variate is the count.\<close>

definition counting_normal :: "nat \<Rightarrow> fp \<times> nat" where
  "counting_normal g = (Fin (real g), Suc g)"

definition counting_seed :: "32 word \<Rightarrow> nat" where
  "counting_seed s = 0"

text \<open>Three configurations for concrete runs: two trials, no trial, one trial.\<close>

definition demo_config :: MonteCarloCreateInfo where
  "demo_config = \<lparr>num_simulations = 2, seed = 42, policy = Sequential\<rparr>"

definition zero_trial_config :: MonteCarloCreateInfo where
  "zero_trial_config = \<lparr>num_simulations = 0, seed = 42, policy = Auto\<rparr>"

definition single_trial_config :: MonteCarloCreateInfo where
  "single_trial_config = \<lparr>num_simulations = 1, seed = 42, policy = Auto\<rparr>"

section \<open>Arithmetic of \<open>T\<close>\<close>

text \<open>Addition on \<open>T\<close> is associative and commutative, with neutral element \<open>Fin 0\<close>.\<close>

lemma plus_fp_assoc: "(x + y) + z = x + (y + z)" for x y z :: fp
  by (cases x; cases y; cases z; simp)

lemma plus_fp_commute: "x + y = y + x" for x y :: fp
  by (cases x; cases y; simp)

lemma plus_fp_zero: "0 + x = x" for x :: fp
  by (cases x; simp add: zero_fp_def)

instance fp :: comm_monoid_add
  by standard (fact plus_fp_assoc plus_fp_commute plus_fp_zero)+

lemma minus_Fin [simp]: "Fin a - Fin b = Fin (a - b)"
  by (simp add: minus_fp_def)

lemma NaN_absorb [simp]:
  "x + NaN = NaN" "x * NaN = NaN" "x / NaN = NaN" "x - NaN = NaN" "NaN - x = NaN"
  by (cases x; simp add: minus_fp_def)+

lemma uminus_times_fp: "(- a) * b = - (a * (b::fp))"
  by (cases a; cases b) auto

lemma uminus_uminus_fp [simp]: "- (- a) = (a::fp)"
  by (cases a) auto

lemma std_max_Fin [simp]: "std_max (Fin a) (Fin b) = Fin (max a b)"
  by (simp add: std_max_def max_def)

lemma is_finite_iff: "is_finite x = (\<exists>a. x = Fin a)"
  by (cases x) (simp_all add: is_finite_def)

lemma zero_or_nan_times:
  "zero_or_nan y \<Longrightarrow> zero_or_nan (x * y)" "zero_or_nan y \<Longrightarrow> zero_or_nan (y * x)"
  by (cases x; auto simp: zero_or_nan_def)+

lemma divide_zero_or_nan: "zero_or_nan y \<Longrightarrow> \<not> is_finite (x / y)"
  by (cases x) (auto simp: zero_or_nan_def is_finite_def split: if_splits)

lemma zero_or_nan_divide: "zero_or_nan x \<Longrightarrow> zero_or_nan y \<Longrightarrow> x / y = NaN"
  by (auto simp: zero_or_nan_def)

lemma not_finite_minus: "\<not> is_finite x \<Longrightarrow> \<not> is_finite (x - y)"
  by (cases x; cases y) (auto simp: is_finite_def minus_fp_def)

section \<open>Bounds on \<open>\<pi>\<close>\<close>

text \<open>
  \<open>normal_pdf\<close> divides by \<open>\<surd>(2\<pi>)\<close>, so the value of \<open>normal_cdf\<close> at zero needs \<open>\<pi>\<close> to
  nine decimals.  The bounds come from the Taylor polynomial of the sine at two rationals
  next to \<open>\<pi>/6\<close>, where the sine is \<open>1/2\<close>.
\<close>

lemma sin_taylor_12:
  "\<bar>sin x - (x - x^3 / 6 + x^5 / 120 - x^7 / 5040 + x^9 / 362880 - x^11 / 39916800)\<bar>
     \<le> \<bar>x\<bar> ^ 12 / 479001600" for x :: real
proof -
  have "{..<12::nat} = {0, 1, 2, 3, 4, 5, 6, 7, 8, 9, 10, 11}"
    by (simp only: set_eq_iff lessThan_iff insert_iff empty_iff) presburger
  then have "(\<Sum>m<12. sin_coeff m * x ^ m) =
        x - x^3 / 6 + x^5 / 120 - x^7 / 5040 + x^9 / 362880 - x^11 / 39916800"
    by (simp add: sin_coeff_def fact_numeral)
  moreover have "inverse (fact 12) = (1 / 479001600 :: real)"
    by (simp add: fact_numeral)
  ultimately have "\<bar>sin x - (x - x^3 / 6 + x^5 / 120 - x^7 / 5040 + x^9 / 362880 - x^11 / 39916800)\<bar>
      \<le> 1 / 479001600 * \<bar>x\<bar> ^ 12"
    using Maclaurin_sin_bound[of x 12] by (simp only:)
  then show ?thesis
    by simp
qed

lemma pi_lower: "3.14159265 < pi"
proof -
  define x :: real where "x = 0.523598775"
  have "sin x \<le> (x - x^3 / 6 + x^5 / 120 - x^7 / 5040 + x^9 / 362880 - x^11 / 39916800) + \<bar>x\<bar> ^ 12 / 479001600"
    using sin_taylor_12[of x] by linarith
  also have "\<dots> < 1 / 2"
    unfolding x_def by (simp add: power_divide)
  finally have "sin x < sin (pi / 6)"
    by (simp add: sin_30)
  moreover have "- (pi / 2) \<le> x" "x \<le> pi / 2"
    using pi_ge_two by (simp_all add: x_def)
  moreover have "- (pi / 2) \<le> pi / 6" "pi / 6 \<le> pi / 2"
    using pi_ge_two by simp_all
  ultimately have "x < pi / 6"
    by (simp add: sin_mono_less_eq)
  then show ?thesis
    by (simp add: x_def)
qed

lemma pi_upper: "pi < 3.1415926536"
proof -
  define x :: real where "x = 0.5235987756"
  have "1 / 2 < (x - x^3 / 6 + x^5 / 120 - x^7 / 5040 + x^9 / 362880 - x^11 / 39916800) - \<bar>x\<bar> ^ 12 / 479001600"
    unfolding x_def by (simp add: power_divide)
  also have "\<dots> \<le> sin x"
    using sin_taylor_12[of x] by linarith
  finally have "sin (pi / 6) < sin x"
    by (simp add: sin_30)
  moreover have "- (pi / 2) \<le> x" "x \<le> pi / 2"
    using pi_ge_two by (simp_all add: x_def)
  moreover have "- (pi / 2) \<le> pi / 6" "pi / 6 \<le> pi / 2"
    using pi_ge_two by simp_all
  ultimately have "pi / 6 < x"
    by (simp add: sin_mono_less_eq)
  then show ?thesis
    by (simp add: x_def)
qed

lemma sqrt_2pi_bounds: "2.506628273 \<le> sqrt pi * sqrt 2" "sqrt pi * sqrt 2 \<le> 2.506628275"
proof -
  have e: "sqrt pi * sqrt 2 = sqrt (2 * pi)"
    by (simp add: real_sqrt_mult)
  have "(2.506628273::real)\<^sup>2 \<le> 2 * pi"
    using pi_lower by (simp add: power2_eq_square)
  then show "2.506628273 \<le> sqrt pi * sqrt 2"
    unfolding e by (rule real_le_rsqrt)
  have "2 * pi \<le> (2.506628275::real)\<^sup>2"
    using pi_upper by (simp add: power2_eq_square)
  moreover have "(0::real) \<le> 2.506628275"
    by simp
  ultimately show "sqrt pi * sqrt 2 \<le> 2.506628275"
    unfolding e by (rule real_le_lsqrt[rotated])
qed

section \<open>The normal distribution primitives\<close>

lemma inv_sqrt_2pi_Fin: "inv_sqrt_2pi = Fin (1 / sqrt pi / sqrt 2)"
  by (simp add: inv_sqrt_2pi_def)

lemma normal_pdf_Fin: "normal_pdf (Fin x) = Fin (1 / sqrt pi / sqrt 2 * exp (- x * x / 2))"
  by (simp add: normal_pdf_def inv_sqrt_2pi_Fin)

lemma normal_pdf_not_finite: "\<not> is_finite x \<Longrightarrow> zero_or_nan (normal_pdf x)"
  by (cases x) (auto simp: is_finite_def zero_or_nan_def normal_pdf_def inv_sqrt_2pi_Fin)

lemma normal_cdf_NaN [simp]: "normal_cdf NaN = NaN"
  by (simp add: normal_cdf.simps minus_fp_def)

text \<open>On a finite argument that is not negative, the Horner polynomial in \<open>t\<close> over the reals.\<close>

lemma normal_cdf_nonneg:
  assumes x: "0 \<le> x"
  shows "normal_cdf (Fin x) =
     Fin (1 - (1 / sqrt pi / sqrt 2 * exp (- x * x / 2)) *
        (let t = 1 / (1 + 0.2316419 * x) in
          t * (0.319381530 + t * (- 0.356563782 + t * (1.781477937
                 + t * (- 1.821255978 + t * 1.330274429))))))"
proof -
  from x have "0 \<le> 0.2316419 * x"
    by simp
  then have nz: "1 + 0.2316419 * x \<noteq> 0"
    by linarith
  have nl: "\<not> Fin x < Fin 0"
    using x by simp
  show ?thesis
    by (subst normal_cdf.simps)
       (simp only: nl if_False Let_def normal_pdf_Fin times_fp.simps plus_fp.simps
          divide_fp.simps minus_Fin nz)
qed

lemma normal_cdf_neg: "x < 0 \<Longrightarrow> normal_cdf (Fin x) = Fin 1 - normal_cdf (Fin (- x))"
  by (subst normal_cdf.simps) simp

lemma normal_cdf_Fin_ex: "\<exists>a. normal_cdf (Fin x) = Fin a"
proof (cases "x < 0")
  case True
  then show ?thesis
    using normal_cdf_nonneg[of "- x"] by (simp add: normal_cdf_neg)
next
  case False
  then show ?thesis
    using normal_cdf_nonneg[of x] by simp
qed

lemma normal_cdf_0: "normal_cdf (Fin 0) = Fin (1 - 156664267 / 125000000 / (sqrt pi * sqrt 2))"
  using normal_cdf_nonneg[of 0] by simp

lemma quotient_bounds:
  fixes q :: real
  assumes "2.506628273 \<le> q" "q \<le> 2.506628275"
  shows "1 / 10 ^ 10 < 1 - 2 * (156664267 / 125000000 / q)"
    "1 - 2 * (156664267 / 125000000 / q) < 2 / 10 ^ 9"
proof -
  have q: "0 < q" using assms by simp
  have "2 * (156664267 / 125000000) < (1 - 1 / 10 ^ 10) * q"
    using assms(1) by simp
  then have "2 * (156664267 / 125000000) / q < 1 - 1 / 10 ^ 10"
    using q by (simp add: pos_divide_less_eq)
  then show "1 / 10 ^ 10 < 1 - 2 * (156664267 / 125000000 / q)"
    by simp
  have "(1 - 2 / 10 ^ 9) * q < 2 * (156664267 / 125000000)"
    using assms(2) by simp
  then have "1 - 2 / 10 ^ 9 < 2 * (156664267 / 125000000) / q"
    using q by (simp add: pos_less_divide_eq)
  then show "1 - 2 * (156664267 / 125000000 / q) < 2 / 10 ^ 9"
    by simp
qed

lemma symmetry_nonzero:
  assumes "x \<noteq> 0"
  shows "normal_cdf (Fin x) + normal_cdf (- Fin x) = Fin 1"
proof (cases "x < 0")
  case True
  obtain a where a: "normal_cdf (Fin (- x)) = Fin a"
    using normal_cdf_Fin_ex by blast
  show ?thesis
    using True by (simp add: normal_cdf_neg a)
next
  case False
  with assms have "- x < 0" by simp
  then have n: "normal_cdf (Fin (- x)) = Fin 1 - normal_cdf (Fin x)"
    using normal_cdf_neg[of "- x"] by simp
  obtain a where a: "normal_cdf (Fin x) = Fin a"
    using normal_cdf_Fin_ex by blast
  show ?thesis
    by (simp add: n a)
qed

lemma symmetry_at_zero:
  shows "\<not> std_abs (normal_cdf (Fin 0) + normal_cdf (- Fin 0) - Fin 1) \<le> Fin (1 / 10 ^ 10)"
    and "std_abs (normal_cdf (Fin 0) + normal_cdf (- Fin 0) - Fin 1) < Fin (2 / 10 ^ 9)"
    and "std_abs (normal_cdf (Fin 0) - Fin 0.5) < Fin (1 / 10 ^ 7)"
proof -
  define q where "q = sqrt pi * sqrt 2"
  have b: "2.506628273 \<le> q" "q \<le> 2.506628275"
    using sqrt_2pi_bounds by (simp_all add: q_def)
  have s: "normal_cdf (Fin 0) + normal_cdf (- Fin 0) - Fin 1
             = Fin (1 - 2 * (156664267 / 125000000 / q))"
    by (simp add: normal_cdf_0 q_def)
  have p: "0 < 1 - 2 * (156664267 / 125000000 / q)"
    using quotient_bounds(1)[OF b] by simp
  show "\<not> std_abs (normal_cdf (Fin 0) + normal_cdf (- Fin 0) - Fin 1) \<le> Fin (1 / 10 ^ 10)"
    unfolding s using quotient_bounds(1)[OF b] p by simp
  show "std_abs (normal_cdf (Fin 0) + normal_cdf (- Fin 0) - Fin 1) < Fin (2 / 10 ^ 9)"
    unfolding s using quotient_bounds(2)[OF b] p by simp
  have h: "normal_cdf (Fin 0) - Fin 0.5 = Fin ((1 - 2 * (156664267 / 125000000 / q)) / 2)"
    by (simp add: normal_cdf_0 q_def)
  show "std_abs (normal_cdf (Fin 0) - Fin 0.5) < Fin (1 / 10 ^ 7)"
    unfolding h using quotient_bounds(2)[OF b] p by simp
qed

text \<open>
  Claim C9, as amended.  For every real \<open>x < 0\<close>, \<open>normal_cdf x\<close> is \<open>1 - normal_cdf (-x)\<close>.
  For every real \<open>x\<close> other than zero, \<open>normal_cdf x + normal_cdf (-x)\<close> is exactly \<open>1\<close>.
  At \<open>x = 0\<close> both calls take the polynomial branch, the sum is \<open>2 \<sqdot> normal_cdf 0\<close>, and
  it is within \<open>2e-9\<close> of \<open>1\<close>; \<open>normal_cdf 0\<close> is within \<open>1e-7\<close> of \<open>0.5\<close>.
\<close>

theorem normal_cdf_symmetry:
  "(x < 0 \<longrightarrow> normal_cdf (Fin x) = Fin 1 - normal_cdf (- Fin x)) \<and>
   (x \<noteq> 0 \<longrightarrow> normal_cdf (Fin x) + normal_cdf (- Fin x) = Fin 1) \<and>
   std_abs (normal_cdf (Fin 0) + normal_cdf (- Fin 0) - Fin 1) < Fin (2 / 10 ^ 9) \<and>
   std_abs (normal_cdf (Fin 0) - Fin 0.5) < Fin (1 / 10 ^ 7)"
  using symmetry_nonzero[of x] symmetry_at_zero(2,3) normal_cdf_neg[of x] by simp

theorem normal_cdf_symmetry_witness:
  "normal_cdf (Fin (- 1)) = Fin 1 - normal_cdf (- Fin (- 1)) \<and>
   normal_cdf (Fin (- 1)) + normal_cdf (- Fin (- 1)) = Fin 1"
proof -
  have "(- 1 :: real) < 0" "(- 1 :: real) \<noteq> 0"
    by simp_all
  with normal_cdf_symmetry[of "- 1"] show ?thesis
    by blast
qed

text \<open>
  Claim C9, as stated, fails at \<open>x = 0\<close>: the sum \<open>normal_cdf 0 + normal_cdf (-0)\<close> differs
  from \<open>1\<close> by more than \<open>1e-10\<close> (by about \<open>1.05e-9\<close>).
\<close>

theorem normal_cdf_symmetry_counterexample:
  "\<not> std_abs (normal_cdf (Fin 0) + normal_cdf (- Fin 0) - Fin 1) \<le> Fin (1 / 10 ^ 10)"
  by (rule symmetry_at_zero(1))

section \<open>The analytical model: the caches hold the formulas\<close>

lemma cache_inv_new:
  "BlackScholesModel_new info = Inr m0 \<Longrightarrow> cache_inv info m0"
  by (auto simp: BlackScholesModel_new_def member_init_def cache_inv_def Let_def
      split: sum.splits)

lemma compute_d_params:
  "m_S (compute_d m) = m_S m" "m_K (compute_d m) = m_K m" "m_r (compute_d m) = m_r m"
  "m_sigma (compute_d m) = m_sigma m" "m_T (compute_d m) = m_T m"
  "m_call_greeks (compute_d m) = m_call_greeks m"
  "m_put_greeks (compute_d m) = m_put_greeks m"
  "m_call_greeks_cached (compute_d m) = m_call_greeks_cached m"
  "m_put_greeks_cached (compute_d m) = m_put_greeks_cached m"
  by (simp_all add: compute_d_def Let_def)

lemma cache_inv_params:
  assumes "cache_inv info m"
  shows "m_S m = spot_price info" "m_K m = strike_price info" "m_r m = risk_free_rate info"
    "m_sigma m = volatility info" "m_T m = time_to_maturity info"
  using assms by (simp_all add: cache_inv_def)

lemma cache_inv_compute_d:
  "cache_inv info m \<Longrightarrow> cache_inv info (compute_d m)"
  by (auto simp: cache_inv_def compute_d_def Let_def spec_d1_def spec_d2_def)

lemma compute_d_cached:
  "cache_inv info m \<Longrightarrow>
     m_d_cached (compute_d m) \<and> m_d1 (compute_d m) = spec_d1 info \<and>
     m_d2 (compute_d m) = spec_d2 info"
  by (auto simp: cache_inv_def compute_d_def Let_def spec_d1_def spec_d2_def)

lemma call_greeks_value:
  assumes "cache_inv info m"
  shows "m_call_greeks (compute_call_greeks m) = spec_call_greeks info"
proof (cases "m_call_greeks_cached m")
  case True
  with assms show ?thesis
    by (simp add: compute_call_greeks_def cache_inv_def)
next
  case False
  then show ?thesis
    using compute_d_cached[OF assms]
    by (simp add: compute_call_greeks_def Let_def compute_d_params cache_inv_params[OF assms]
        spec_call_greeks_def uminus_times_fp)
qed

lemma put_greeks_value:
  assumes "cache_inv info m"
  shows "m_put_greeks (compute_put_greeks m) = spec_put_greeks info"
proof (cases "m_put_greeks_cached m")
  case True
  with assms show ?thesis
    by (simp add: compute_put_greeks_def cache_inv_def)
next
  case False
  then show ?thesis
    using compute_d_cached[OF assms]
    by (simp add: compute_put_greeks_def Let_def compute_d_params cache_inv_params[OF assms]
        spec_put_greeks_def spec_call_greeks_def uminus_times_fp)
qed

lemma cache_inv_compute_call_greeks:
  assumes "cache_inv info m"
  shows "cache_inv info (compute_call_greeks m)"
proof (cases "m_call_greeks_cached m")
  case True
  with assms show ?thesis
    by (simp add: compute_call_greeks_def)
next
  case False
  have "cache_inv info (compute_d m)"
    using assms by (rule cache_inv_compute_d)
  moreover have "m_d_cached (compute_d m)"
    using compute_d_cached[OF assms] by simp
  moreover note call_greeks_value[OF assms]
  ultimately show ?thesis
    using False by (simp add: compute_call_greeks_def Let_def cache_inv_def)
qed

lemma cache_inv_compute_put_greeks:
  assumes "cache_inv info m"
  shows "cache_inv info (compute_put_greeks m)"
proof (cases "m_put_greeks_cached m")
  case True
  with assms show ?thesis
    by (simp add: compute_put_greeks_def)
next
  case False
  have "cache_inv info (compute_d m)"
    using assms by (rule cache_inv_compute_d)
  moreover have "m_d_cached (compute_d m)"
    using compute_d_cached[OF assms] by simp
  moreover note put_greeks_value[OF assms]
  ultimately show ?thesis
    using False by (simp add: compute_put_greeks_def Let_def cache_inv_def)
qed

lemma cache_inv_invoke:
  "cache_inv info m \<Longrightarrow> cache_inv info (invoke meth m)"
  by (cases meth)
     (simp_all add: call_price_def put_price_def call_greeks_def put_greeks_def Let_def
        cache_inv_compute_d cache_inv_compute_call_greeks cache_inv_compute_put_greeks)

lemma cache_inv_after_calls:
  "cache_inv info m \<Longrightarrow> cache_inv info (after_calls ms m)"
  unfolding after_calls_def
  by (induction ms arbitrary: m) (simp_all add: cache_inv_invoke)

lemma cache_inv_reached:
  "BlackScholesModel_new info = Inr m0 \<Longrightarrow> cache_inv info (after_calls ms m0)"
  by (simp add: cache_inv_new cache_inv_after_calls)

lemma call_price_value:
  assumes "cache_inv info m"
  shows "fst (call_price m) = spec_call_price info"
  using compute_d_cached[OF assms]
  by (simp add: call_price_def Let_def compute_d_params cache_inv_params[OF assms]
      spec_call_price_def uminus_times_fp)

lemma put_price_value:
  assumes "cache_inv info m"
  shows "fst (put_price m) = spec_put_price info"
  using call_price_value[OF assms]
  by (simp add: put_price_def call_price_def Let_def compute_d_params
      cache_inv_params[OF assms] spec_put_price_def uminus_times_fp)

lemma new_reference_contract:
  "BlackScholesModel_new reference_contract = Inr (member_init reference_contract)"
  by (simp add: BlackScholesModel_new_def validate_def reference_contract_def)

lemma new_zero_vol_contract:
  "BlackScholesModel_new zero_vol_contract = Inr (member_init zero_vol_contract)"
  by (simp add: BlackScholesModel_new_def validate_def zero_vol_contract_def)

text \<open>
  Claim C2.  For every parameter set that validation accepts, and after any sequence of
  calls of the public methods, \<open>call_price()\<close> returns
  \<open>S \<sqdot> \<Phi>(d1) - K \<sqdot> e\<^sup>-\<^sup>r\<^sup>\<tau> \<sqdot> \<Phi>(d2)\<close> with
  \<open>d1 = [ln(S/K) + (r + \<sigma>\<^sup>2/2) \<sqdot> \<tau>] / (\<sigma>\<surd>\<tau>)\<close> and \<open>d2 = d1 - \<sigma>\<surd>\<tau>\<close> (the formulas
  \<open>spec_call_price\<close>, \<open>spec_d1\<close>, \<open>spec_d2\<close> of the stored parameters).  After the call
  the cache is set and holds \<open>d1\<close> and \<open>d2\<close>; when the cache was set before the call, it
  held these values already and the call leaves the object as it was.
\<close>

theorem call_price_formula:
  assumes "BlackScholesModel_new info = Inr m0"
  shows "let m = after_calls ms m0; (C, m') = call_price m
         in C = spec_call_price info \<and>
            m_d_cached m' \<and> m_d1 m' = spec_d1 info \<and> m_d2 m' = spec_d2 info \<and>
            (m_d_cached m \<longrightarrow> m_d1 m = spec_d1 info \<and> m_d2 m = spec_d2 info \<and> m' = m)"
proof -
  have inv: "cache_inv info (after_calls ms m0)"
    using assms by (rule cache_inv_reached)
  have c: "m_d_cached (after_calls ms m0) \<longrightarrow> compute_d (after_calls ms m0) = after_calls ms m0"
    by (simp add: compute_d_def)
  have d: "m_d_cached (after_calls ms m0) \<longrightarrow>
             m_d1 (after_calls ms m0) = spec_d1 info \<and> m_d2 (after_calls ms m0) = spec_d2 info"
    using inv by (simp add: cache_inv_def)
  have v: "fst (call_price (after_calls ms m0)) = spec_call_price info"
    using inv by (rule call_price_value)
  have s: "snd (call_price (after_calls ms m0)) = compute_d (after_calls ms m0)"
    by (simp add: call_price_def Let_def)
  show ?thesis
    using compute_d_cached[OF inv] c d v s by (simp add: Let_def case_prod_beta)
qed

theorem call_price_formula_witness:
  "BlackScholesModel_new reference_contract = Inr (member_init reference_contract) \<and>
   m_d_cached (after_calls [CallPrice] (member_init reference_contract)) \<and>
   fst (call_price (after_calls [CallPrice] (member_init reference_contract)))
     = spec_call_price reference_contract \<and>
   snd (call_price (after_calls [CallPrice] (member_init reference_contract)))
     = after_calls [CallPrice] (member_init reference_contract)"
proof -
  have c: "m_d_cached (after_calls [CallPrice] (member_init reference_contract))"
    by (simp add: after_calls_def call_price_def compute_d_def Let_def)
  show ?thesis
    using call_price_formula[OF new_reference_contract, of "[CallPrice]"] c
    by (simp add: Let_def case_prod_beta new_reference_contract)
qed

text \<open>
  Claim C4.  For every parameter set that validation accepts, and after any sequence of
  calls of the public methods, \<open>call_greeks()\<close> returns the five call formulas and
  \<open>put_greeks()\<close> the five put formulas (\<open>spec_call_greeks\<close>, \<open>spec_put_greeks\<close>); the
  put's gamma and vega are the call's.
\<close>

theorem greeks_formulas:
  assumes "BlackScholesModel_new info = Inr m0"
  shows "fst (call_greeks (after_calls ms m0)) = spec_call_greeks info \<and>
         fst (put_greeks (after_calls ms' m0)) = spec_put_greeks info \<and>
         gamma (fst (put_greeks (after_calls ms' m0)))
           = gamma (fst (call_greeks (after_calls ms m0))) \<and>
         vega (fst (put_greeks (after_calls ms' m0)))
           = vega (fst (call_greeks (after_calls ms m0)))"
proof -
  have c: "fst (call_greeks (after_calls ms m0)) = spec_call_greeks info"
    using call_greeks_value[OF cache_inv_reached[OF assms]]
    by (simp add: call_greeks_def Let_def)
  have p: "fst (put_greeks (after_calls ms' m0)) = spec_put_greeks info"
    using put_greeks_value[OF cache_inv_reached[OF assms]]
    by (simp add: put_greeks_def Let_def)
  show ?thesis
    unfolding c p by (simp add: spec_put_greeks_def Let_def)
qed

theorem greeks_formulas_witness:
  "BlackScholesModel_new reference_contract = Inr (member_init reference_contract) \<and>
   fst (call_greeks (after_calls [PutGreeks, CallGreeks] (member_init reference_contract)))
     = spec_call_greeks reference_contract \<and>
   fst (put_greeks (after_calls [CallPrice] (member_init reference_contract)))
     = spec_put_greeks reference_contract"
  using greeks_formulas[OF new_reference_contract, of "[PutGreeks, CallGreeks]" "[CallPrice]"]
  by (simp add: new_reference_contract)

text \<open>
  Claim C5.  The constructor throws \<open>std::invalid_argument\<close> if and only if the spot is
  \<open>\<le> 0\<close>, the strike is \<open>\<le> 0\<close>, the volatility is \<open>< 0\<close> or the time to maturity is \<open>\<le> 0\<close>;
  otherwise it returns the object holding the parameters.  The rate is not looked at:
  replacing it by any value changes nothing to the outcome.  The four public methods
  contain no \<open>throw\<close>: they are total functions, with no error result.
\<close>

theorem construction_fails_iff:
  "((\<exists>msg. BlackScholesModel_new info = Inl (invalid_argument msg)) =
      (spot_price info \<le> Fin 0 \<or> strike_price info \<le> Fin 0 \<or>
       volatility info < Fin 0 \<or> time_to_maturity info \<le> Fin 0)) \<and>
   ((BlackScholesModel_new info = Inr (member_init info)) =
      (\<not> (spot_price info \<le> Fin 0 \<or> strike_price info \<le> Fin 0 \<or>
       volatility info < Fin 0 \<or> time_to_maturity info \<le> Fin 0))) \<and>
   ((\<exists>msg. BlackScholesModel_new (info\<lparr>risk_free_rate := r\<rparr>) = Inl (invalid_argument msg)) =
      (\<exists>msg. BlackScholesModel_new info = Inl (invalid_argument msg)))"
  by (auto simp: BlackScholesModel_new_def validate_def Let_def)

theorem construction_fails_iff_witness:
  "BlackScholesModel_new reference_contract = Inr (member_init reference_contract) \<and>
   (\<exists>msg. BlackScholesModel_new (reference_contract\<lparr>time_to_maturity := Fin 0\<rparr>)
            = Inl (invalid_argument msg)) \<and>
   BlackScholesModel_new (reference_contract\<lparr>risk_free_rate := Fin (- 0.01)\<rparr>)
     = Inr (member_init (reference_contract\<lparr>risk_free_rate := Fin (- 0.01)\<rparr>))"
  using construction_fails_iff[of reference_contract]
    construction_fails_iff[of "reference_contract\<lparr>time_to_maturity := Fin 0\<rparr>"]
    construction_fails_iff[of "reference_contract\<lparr>risk_free_rate := Fin (- 0.01)\<rparr>"]
  by (simp add: reference_contract_def)

section \<open>The analytical model: parity, and zero volatility\<close>

text \<open>The call price of the reference contract is finite.\<close>

lemma reference_call_price_finite: "is_finite (spec_call_price reference_contract)"
proof -
  have d1: "spec_d1 reference_contract = Fin ((0.05 + 0.20 * 0.20 / 2) / 0.20)"
    by (simp add: spec_d1_def reference_contract_def)
  then have d2: "spec_d2 reference_contract = Fin ((0.05 + 0.20 * 0.20 / 2) / 0.20 - 0.20)"
    by (simp add: spec_d2_def reference_contract_def)
  obtain a where a: "normal_cdf (Fin ((0.05 + 0.20 * 0.20 / 2) / 0.20)) = Fin a"
    using normal_cdf_Fin_ex by blast
  obtain b where b: "normal_cdf (Fin ((0.05 + 0.20 * 0.20 / 2) / 0.20 - 0.20)) = Fin b"
    using normal_cdf_Fin_ex by blast
  show ?thesis
    unfolding spec_call_price_def Let_def d1 d2 a b
    by (simp add: reference_contract_def is_finite_def)
qed

text \<open>A finite call price forces a finite spot and a finite discounted strike.\<close>

lemma parity_of_finite_call:
  assumes "is_finite (S * a - Ke * b)"
  shows "(S * a - Ke * b) - ((S * a - Ke * b) - S + Ke) = S - Ke"
  using assms
  by (cases S; cases a; cases Ke; cases b)
     (auto simp: is_finite_def minus_fp_def split: if_splits)

lemma validated_positive:
  assumes "BlackScholesModel_new info = Inr m0"
  shows "\<not> spot_price info \<le> Fin 0" "\<not> strike_price info \<le> Fin 0"
    "\<not> volatility info < Fin 0" "\<not> time_to_maturity info \<le> Fin 0"
  using assms by (auto simp: BlackScholesModel_new_def validate_def Let_def split: if_splits)

text \<open>
  Claim C3, as amended.  For every parameter set that validation accepts, and after any
  sequence of calls of the public methods, \<open>put_price()\<close> is
  \<open>call_price() - S + K \<sqdot> e\<^sup>-\<^sup>r\<^sup>\<tau>\<close>; and whenever \<open>call_price()\<close> is finite,
  \<open>call_price() - put_price() = S - K \<sqdot> e\<^sup>-\<^sup>r\<^sup>\<tau>\<close> holds exactly.
\<close>

theorem put_call_parity:
  assumes "BlackScholesModel_new info = Inr m0"
  shows "let m = after_calls ms m0; C = fst (call_price m); P = fst (put_price m);
             S = spot_price info; K = strike_price info; r = risk_free_rate info;
             T = time_to_maturity info
         in P = C - S + K * std_exp (- (r * T)) \<and>
            (is_finite C \<longrightarrow> C - P = S - K * std_exp (- (r * T)))"
proof -
  have inv: "cache_inv info (after_calls ms m0)"
    using assms by (rule cache_inv_reached)
  have C: "fst (call_price (after_calls ms m0)) = spec_call_price info"
    using inv by (rule call_price_value)
  have P: "fst (put_price (after_calls ms m0)) = spec_put_price info"
    using inv by (rule put_price_value)
  have a: "spec_put_price info = spec_call_price info - spot_price info
             + strike_price info * std_exp (- (risk_free_rate info * time_to_maturity info))"
    by (simp add: spec_put_price_def Let_def)
  have b: "spec_call_price info - spec_put_price info = spot_price info
             - strike_price info * std_exp (- (risk_free_rate info * time_to_maturity info))"
    if "is_finite (spec_call_price info)"
    using that parity_of_finite_call[of "spot_price info" "normal_cdf (spec_d1 info)"
        "strike_price info * std_exp (- (risk_free_rate info * time_to_maturity info))"
        "normal_cdf (spec_d2 info)"]
    by (simp add: spec_put_price_def spec_call_price_def Let_def)
  show ?thesis
    unfolding Let_def C P using a b by blast
qed

theorem put_call_parity_witness:
  "BlackScholesModel_new reference_contract = Inr (member_init reference_contract) \<and>
   is_finite (fst (call_price (member_init reference_contract))) \<and>
   fst (call_price (member_init reference_contract))
     - fst (put_price (member_init reference_contract))
     = spot_price reference_contract - strike_price reference_contract
         * std_exp (- (risk_free_rate reference_contract * time_to_maturity reference_contract))"
proof -
  have fin: "is_finite (fst (call_price (member_init reference_contract)))"
    using call_price_value[OF cache_inv_new[OF new_reference_contract]]
      reference_call_price_finite by simp
  note t = put_call_parity[OF new_reference_contract, of "[]",
      unfolded Let_def after_calls_def fold.simps id_apply]
  from t fin new_reference_contract show ?thesis
    by blast
qed

lemma zero_vol_call_price: "fst (call_price (member_init zero_vol_contract)) = NaN"
proof -
  have "spec_d1 zero_vol_contract = NaN"
    by (simp add: spec_d1_def zero_vol_contract_def)
  then have "spec_call_price zero_vol_contract = NaN"
    by (simp add: spec_call_price_def Let_def)
  then show ?thesis
    using call_price_value[OF cache_inv_new[OF new_zero_vol_contract]] by simp
qed

text \<open>
  Claim C3, as stated, fails at a parameter set that validation accepts:
  \<open>S = K = 100\<close>, \<open>r = 0\<close>, \<open>\<sigma> = 0\<close>, \<open>\<tau> = 1\<close>.  There \<open>d1 = 0 / 0\<close> is NaN, both prices are
  NaN, and \<open>call_price() - put_price()\<close> is NaN, not \<open>S - K \<sqdot> e\<^sup>-\<^sup>r\<^sup>\<tau> = 0\<close>, nor within
  \<open>1e-10\<close> of it.
\<close>

theorem put_call_parity_counterexample:
  "BlackScholesModel_new zero_vol_contract = Inr (member_init zero_vol_contract) \<and>
   fst (call_price (member_init zero_vol_contract))
     - fst (put_price (member_init zero_vol_contract)) = NaN \<and>
   spot_price zero_vol_contract - strike_price zero_vol_contract
     * std_exp (- (risk_free_rate zero_vol_contract * time_to_maturity zero_vol_contract))
     = Fin 0 \<and>
   \<not> std_abs ((fst (call_price (member_init zero_vol_contract))
                 - fst (put_price (member_init zero_vol_contract)))
               - (spot_price zero_vol_contract - strike_price zero_vol_contract
                    * std_exp (- (risk_free_rate zero_vol_contract
                                  * time_to_maturity zero_vol_contract))))
       \<le> Fin (1 / 10 ^ 10)"
proof -
  have "spot_price zero_vol_contract - strike_price zero_vol_contract
     * std_exp (- (risk_free_rate zero_vol_contract * time_to_maturity zero_vol_contract))
     = Fin 0"
    by (simp add: zero_vol_contract_def)
  then show ?thesis
    by (simp add: new_zero_vol_contract zero_vol_call_price)
qed

lemma zero_vol_not_finite:
  assumes "volatility info = Fin 0"
  shows "\<not> is_finite (spec_d1 info)" "\<not> is_finite (spec_d2 info)"
    "gamma (spec_call_greeks info) = NaN" "gamma (spec_put_greeks info) = NaN"
proof -
  have z: "zero_or_nan (Fin 0)"
    by (simp add: zero_or_nan_def)
  have a: "zero_or_nan (volatility info * std_sqrt (time_to_maturity info))"
    using assms z by (simp add: zero_or_nan_times)
  show d1: "\<not> is_finite (spec_d1 info)"
    using a by (simp add: spec_d1_def Let_def divide_zero_or_nan)
  then show "\<not> is_finite (spec_d2 info)"
    by (simp add: spec_d2_def not_finite_minus)
  have b: "zero_or_nan (spot_price info * volatility info * std_sqrt (time_to_maturity info))"
    using assms z by (simp add: zero_or_nan_times)
  show g: "gamma (spec_call_greeks info) = NaN"
    using normal_pdf_not_finite[OF d1] b
    by (simp add: spec_call_greeks_def Let_def zero_or_nan_divide)
  then show "gamma (spec_put_greeks info) = NaN"
    by (simp add: spec_put_greeks_def Let_def)
qed

lemma zero_vol_d1_value:
  assumes "spot_price info = Fin s" "strike_price info = Fin k" "risk_free_rate info = Fin r"
    "volatility info = Fin 0" "time_to_maturity info = Fin t" "0 < s" "0 < k" "0 < t"
  shows "spec_d1 info = (if ln (s / k) + r * t = 0 then NaN
                         else if 0 < ln (s / k) + r * t then PInf else NInf)"
proof -
  have "0 < s / k"
    using assms by simp
  then have "\<not> s / k < 0" "s / k \<noteq> 0"
    by linarith+
  then show ?thesis
    using assms by (simp add: spec_d1_def Let_def)
qed

text \<open>
  Claim C10.  Validation accepts \<open>\<sigma> = 0\<close>.  For every accepted parameter set with
  \<open>\<sigma> = 0\<close>, and after any sequence of calls of the public methods: the cached \<open>d1\<close> and
  \<open>d2\<close> are not finite, the gamma that \<open>call_greeks()\<close> returns and the gamma that
  \<open>put_greeks()\<close> returns are NaN, and no call raises (the methods have no error result).
  For finite \<open>S\<close>, \<open>K\<close>, \<open>r\<close>, \<open>\<tau>\<close>, \<open>d1\<close> is NaN when \<open>ln(S/K) + r\<tau> = 0\<close>, and else the
  infinity of the sign of \<open>ln(S/K) + r\<tau>\<close>.
\<close>

theorem zero_volatility_not_finite:
  assumes "BlackScholesModel_new info = Inr m0" and "volatility info = Fin 0"
  shows "let m = after_calls ms m0; m' = snd (call_price m)
         in \<not> is_finite (m_d1 m') \<and> \<not> is_finite (m_d2 m') \<and>
            gamma (fst (call_greeks m)) = NaN \<and> gamma (fst (put_greeks m)) = NaN \<and>
            (\<forall>s k r t. spot_price info = Fin s \<and> strike_price info = Fin k \<and>
                 risk_free_rate info = Fin r \<and> time_to_maturity info = Fin t \<longrightarrow>
               m_d1 m' = (if ln (s / k) + r * t = 0 then NaN
                          else if 0 < ln (s / k) + r * t then PInf else NInf))"
proof -
  have inv: "cache_inv info (after_calls ms m0)"
    using assms(1) by (rule cache_inv_reached)
  have s: "snd (call_price (after_calls ms m0)) = compute_d (after_calls ms m0)"
    by (simp add: call_price_def Let_def)
  have d: "m_d1 (snd (call_price (after_calls ms m0))) = spec_d1 info"
    "m_d2 (snd (call_price (after_calls ms m0))) = spec_d2 info"
    unfolding s using compute_d_cached[OF inv] by simp_all
  have c: "fst (call_greeks (after_calls ms m0)) = spec_call_greeks info"
    using call_greeks_value[OF inv] by (simp add: call_greeks_def Let_def)
  have p: "fst (put_greeks (after_calls ms m0)) = spec_put_greeks info"
    using put_greeks_value[OF inv] by (simp add: put_greeks_def Let_def)
  have v: "spec_d1 info = (if ln (s / k) + r * t = 0 then NaN
                           else if 0 < ln (s / k) + r * t then PInf else NInf)"
    if "spot_price info = Fin s" "strike_price info = Fin k"
      "risk_free_rate info = Fin r" "time_to_maturity info = Fin t" for s k r t
  proof -
    have "0 < s" "0 < k" "0 < t"
      using validated_positive[OF assms(1)] that by simp_all
    with that assms(2) show ?thesis
      by (intro zero_vol_d1_value) simp_all
  qed
  show ?thesis
    unfolding Let_def d c p using zero_vol_not_finite[OF assms(2)] v by blast
qed

theorem zero_volatility_not_finite_witness:
  "BlackScholesModel_new zero_vol_contract = Inr (member_init zero_vol_contract) \<and>
   volatility zero_vol_contract = Fin 0 \<and>
   m_d1 (snd (call_price (member_init zero_vol_contract))) = NaN \<and>
   \<not> is_finite (m_d2 (snd (call_price (member_init zero_vol_contract)))) \<and>
   gamma (fst (call_greeks (member_init zero_vol_contract))) = NaN \<and>
   gamma (fst (put_greeks (member_init zero_vol_contract))) = NaN"
proof -
  have v: "volatility zero_vol_contract = Fin 0"
    by (simp add: zero_vol_contract_def)
  have p: "spot_price zero_vol_contract = Fin 100 \<and> strike_price zero_vol_contract = Fin 100 \<and>
           risk_free_rate zero_vol_contract = Fin 0 \<and> time_to_maturity zero_vol_contract = Fin 1"
    by (simp add: zero_vol_contract_def)
  have "m_d1 (snd (call_price (member_init zero_vol_contract)))
          = (if ln (100 / 100) + 0 * 1 = (0::real) then NaN
             else if 0 < ln (100 / 100) + 0 * (1::real) then PInf else NInf)"
    using zero_volatility_not_finite[OF new_zero_vol_contract v, of "[]"] p
    unfolding Let_def after_calls_def fold.simps id_apply by blast
  then have "m_d1 (snd (call_price (member_init zero_vol_contract))) = NaN"
    by simp
  then show ?thesis
    using zero_volatility_not_finite[OF new_zero_vol_contract v, of "[]"]
    by (simp add: Let_def after_calls_def new_zero_vol_contract v)
qed

section \<open>The simulation engine: one variate sequence, two paths\<close>

lemma length_draws: "length (fst (draws normal n g)) = n"
  by (induction n arbitrary: g) (simp_all add: case_prod_beta)

lemma draws_Suc:
  "draws normal (Suc n) g =
     (fst (normal g) # fst (draws normal n (snd (normal g))),
      snd (draws normal n (snd (normal g))))"
  by (simp add: case_prod_beta)

lemma simulate_gbm_terminal_eq:
  "simulate_gbm_terminal normal S0 r sigma time g =
     (terminal_price S0 r sigma time (fst (normal g)), snd (normal g))"
  by (simp add: simulate_gbm_terminal_def terminal_price_def case_prod_beta)

text \<open>The sequential loop appends, draw by draw, what the maps of the parallel path produce.\<close>

lemma sequential_loop_draws:
  "sequential_loop normal S0 K r sigma time n (g, cs, ps) =
     (snd (draws normal n g),
      cs @ map (\<lambda>Z. std_max (terminal_price S0 r sigma time Z - K) (Fin 0))
             (fst (draws normal n g)),
      ps @ map (\<lambda>Z. std_max (K - terminal_price S0 r sigma time Z) (Fin 0))
             (fst (draws normal n g)))"
proof (induction n arbitrary: g cs ps)
  case 0
  show ?case by simp
next
  case (Suc n)
  show ?case
    by (simp only: sequential_loop.simps simulate_gbm_terminal_eq Let_def case_prod_conv
          Suc.IH draws_Suc fst_conv snd_conv list.map append_assoc append_Cons append_Nil)
qed

text \<open>The draw loop fills the vector from index \<open>i\<close> on with the next \<open>N - i\<close> variates.\<close>

lemma draw_loop_draws:
  assumes "i \<le> N" "length xs = N"
  shows "draw_loop normal N i (g, xs) =
           (snd (draws normal (N - i) g), take i xs @ fst (draws normal (N - i) g))"
  using assms
proof (induction "N - i" arbitrary: i g xs)
  case 0
  then show ?case
    by (simp add: draw_loop.simps)
next
  case (Suc d)
  then have lt: "i < N" and d: "d = N - Suc i" and e: "N - i = Suc (N - Suc i)"
    by simp_all
  have len: "length (xs[i := fst (normal g)]) = N"
    using Suc.prems by simp
  have t: "take (Suc i) (xs[i := fst (normal g)]) = take i xs @ [fst (normal g)]"
    using lt Suc.prems(2) by (simp add: take_Suc_conv_app_nth)
  have "draw_loop normal N i (g, xs) =
          draw_loop normal N (Suc i) (snd (normal g), xs[i := fst (normal g)])"
    using lt by (subst draw_loop.simps) (simp add: case_prod_beta)
  also have "\<dots> = (snd (draws normal (N - Suc i) (snd (normal g))),
       take (Suc i) (xs[i := fst (normal g)]) @ fst (draws normal (N - Suc i) (snd (normal g))))"
    using Suc.hyps(1)[OF d _ len] lt by simp
  finally show ?case
    unfolding e draws_Suc t by simp
qed

lemma sequential_payoffs_eq:
  "sequential_payoffs normal p S0 K r sigma time =
     (let Zs = fst (draws normal (unat (num_simulations (m_config p))) (m_rng p))
      in (snd (draws normal (unat (num_simulations (m_config p))) (m_rng p)),
          map (\<lambda>Z. std_max (terminal_price S0 r sigma time Z - K) (Fin 0)) Zs,
          map (\<lambda>Z. std_max (K - terminal_price S0 r sigma time Z) (Fin 0)) Zs))"
  by (simp add: sequential_payoffs_def sequential_loop_draws Let_def)

lemma parallel_payoffs_eq:
  "parallel_payoffs normal p S0 K r sigma time =
     (let Zs = fst (draws normal (unat (num_simulations (m_config p))) (m_rng p))
      in (snd (draws normal (unat (num_simulations (m_config p))) (m_rng p)),
          map (\<lambda>Z. std_max (terminal_price S0 r sigma time Z - K) (Fin 0)) Zs,
          map (\<lambda>Z. std_max (K - terminal_price S0 r sigma time Z) (Fin 0)) Zs))"
  by (simp add: parallel_payoffs_def draw_loop_draws Let_def terminal_price_def comp_def)

lemma paths_equal:
  "price_european_call_and_put_sequential normal p S0 K r sigma time =
   price_european_call_and_put_parallel normal p S0 K r sigma time"
  by (simp add: price_european_call_and_put_sequential_def
      price_european_call_and_put_parallel_def sequential_payoffs_eq parallel_payoffs_eq)


lemma price_european_call_and_put_cases:
  "price_european_call_and_put normal p S0 K r sigma time =
     price_european_call_and_put_sequential normal p S0 K r sigma time"
  by (simp add: price_european_call_and_put_def paths_equal split: ExecutionPolicy.split)

lemma sequential_result:
  "fst (price_european_call_and_put_sequential normal p S0 K r sigma time) =
     (let ST = map (terminal_price S0 r sigma time)
                 (fst (draws normal (unat (num_simulations (m_config p))) (m_rng p)));
          DF = std_exp ((- r) * time)
      in \<lparr>call = compute_statistics (map (\<lambda>ST. std_max (ST - K) (Fin 0)) ST) DF,
          put = compute_statistics (map (\<lambda>ST. std_max (K - ST) (Fin 0)) ST) DF\<rparr>)"
  by (simp add: price_european_call_and_put_sequential_def sequential_payoffs_eq Let_def
      comp_def)

text \<open>
  Claim C6.  With \<open>N\<close> the trial count and \<open>ST\<^sub>i\<close> the terminal price of the \<open>i\<close>-th variate
  drawn from the generator state at the call: in both paths there are \<open>N\<close> call payoffs and
  \<open>N\<close> put payoffs, and for every \<open>i < N\<close> the \<open>i\<close>-th call payoff is \<open>max(ST\<^sub>i - K, 0)\<close> and
  the \<open>i\<close>-th put payoff is \<open>max(K - ST\<^sub>i, 0)\<close>, both from the same draw.  The sequential
  path, the parallel path and \<open>price_european_call_and_put\<close> under every policy return
  the statistics of exactly these two payoff vectors: the call result from the call
  payoffs, the put result from the put payoffs of the same terminal prices.
\<close>

theorem paired_payoffs:
  "let N = unat (num_simulations (m_config p));
       ST = map (terminal_price S0 r sigma time) (fst (draws normal N (m_rng p)));
       (g, call_payoffs, put_payoffs) = sequential_payoffs normal p S0 K r sigma time;
       (g', call_payoffs', put_payoffs') = parallel_payoffs normal p S0 K r sigma time;
       DF = std_exp ((- r) * time);
       paired = \<lparr>call = compute_statistics (map (\<lambda>ST. std_max (ST - K) (Fin 0)) ST) DF,
                 put = compute_statistics (map (\<lambda>ST. std_max (K - ST) (Fin 0)) ST) DF\<rparr>
   in length ST = N \<and>
      length call_payoffs = N \<and> length put_payoffs = N \<and>
      length call_payoffs' = N \<and> length put_payoffs' = N \<and>
      (\<forall>i<N. call_payoffs ! i = std_max (ST ! i - K) (Fin 0) \<and>
              put_payoffs ! i = std_max (K - ST ! i) (Fin 0) \<and>
              call_payoffs' ! i = std_max (ST ! i - K) (Fin 0) \<and>
              put_payoffs' ! i = std_max (K - ST ! i) (Fin 0)) \<and>
      fst (price_european_call_and_put_sequential normal p S0 K r sigma time) = paired \<and>
      fst (price_european_call_and_put_parallel normal p S0 K r sigma time) = paired \<and>
      fst (price_european_call_and_put normal p S0 K r sigma time) = paired"
proof -
  have s: "fst (price_european_call_and_put_parallel normal p S0 K r sigma time)
             = fst (price_european_call_and_put_sequential normal p S0 K r sigma time)"
    "fst (price_european_call_and_put normal p S0 K r sigma time)
             = fst (price_european_call_and_put_sequential normal p S0 K r sigma time)"
    by (simp_all add: paths_equal[symmetric] price_european_call_and_put_cases)
  show ?thesis
    unfolding s sequential_result
    by (simp add: sequential_payoffs_eq parallel_payoffs_eq Let_def length_draws)
qed

text \<open>
  A run with \<open>\<sigma> = 1\<close>, \<open>r = 0\<close>, \<open>\<tau> = 1\<close>, \<open>S0 = K = 100\<close> and the variates \<open>0\<close> and \<open>1\<close>: the
  terminal prices are \<open>100 \<sqdot> e\<^sup>-\<^sup>1\<^sup>/\<^sup>2\<close> and \<open>100 \<sqdot> e\<^sup>1\<^sup>/\<^sup>2\<close>, the first below and the second
  above the strike.
\<close>

lemma demo_run:
  "unat (num_simulations (m_config (MonteCarloPricer_new counting_seed demo_config))) = 2"
  "map (terminal_price (Fin 100) (Fin 0) (Fin 1) (Fin 1))
     (fst (draws counting_normal 2 (m_rng (MonteCarloPricer_new counting_seed demo_config))))
     = [Fin (100 * exp (- (1 / 2))), Fin (100 * exp (1 / 2))]"
  "std_exp ((- Fin 0) * Fin 1) = Fin 1"
  "std_max (Fin (100 * exp (- (1 / 2))) - Fin 100) (Fin 0) = Fin 0"
  "std_max (Fin 100 - Fin (100 * exp (- (1 / 2)))) (Fin 0) = Fin (100 - 100 * exp (- (1 / 2)))"
  "std_max (Fin (100 * exp (1 / 2)) - Fin 100) (Fin 0) = Fin (100 * exp (1 / 2) - 100)"
  "std_max (Fin 100 - Fin (100 * exp (1 / 2))) (Fin 0) = Fin 0"
proof -
  show "unat (num_simulations (m_config (MonteCarloPricer_new counting_seed demo_config))) = 2"
    by (simp add: MonteCarloPricer_new_def demo_config_def)
  show "map (terminal_price (Fin 100) (Fin 0) (Fin 1) (Fin 1))
     (fst (draws counting_normal 2 (m_rng (MonteCarloPricer_new counting_seed demo_config))))
     = [Fin (100 * exp (- (1 / 2))), Fin (100 * exp (1 / 2))]"
    by (simp add: MonteCarloPricer_new_def counting_seed_def counting_normal_def
        numeral_2_eq_2 terminal_price_def)
  show "std_exp ((- Fin 0) * Fin 1) = Fin 1"
    by simp
  have lo: "exp (- (1 / 2)) < (1::real)" and hi: "(1::real) < exp (1 / 2)"
    by simp_all
  from lo show "std_max (Fin (100 * exp (- (1 / 2))) - Fin 100) (Fin 0) = Fin 0"
    by (simp add: max_def)
  from lo show "std_max (Fin 100 - Fin (100 * exp (- (1 / 2)))) (Fin 0)
                  = Fin (100 - 100 * exp (- (1 / 2)))"
    by (simp add: max_def)
  from hi show "std_max (Fin (100 * exp (1 / 2)) - Fin 100) (Fin 0)
                  = Fin (100 * exp (1 / 2) - 100)"
    by (simp add: max_def)
  from hi show "std_max (Fin 100 - Fin (100 * exp (1 / 2))) (Fin 0) = Fin 0"
    by (simp add: max_def)
qed

theorem paired_payoffs_witness:
  "unat (num_simulations (m_config (MonteCarloPricer_new counting_seed demo_config))) = 2 \<and>
   fst (snd (sequential_payoffs counting_normal (MonteCarloPricer_new counting_seed demo_config)
          (Fin 100) (Fin 100) (Fin 0) (Fin 1) (Fin 1))) ! 0 = Fin 0 \<and>
   snd (snd (sequential_payoffs counting_normal (MonteCarloPricer_new counting_seed demo_config)
          (Fin 100) (Fin 100) (Fin 0) (Fin 1) (Fin 1))) ! 0
     = Fin (100 - 100 * exp (- (1 / 2))) \<and>
   fst (snd (parallel_payoffs counting_normal (MonteCarloPricer_new counting_seed demo_config)
          (Fin 100) (Fin 100) (Fin 0) (Fin 1) (Fin 1))) ! 1
     = Fin (100 * exp (1 / 2) - 100) \<and>
   snd (snd (parallel_payoffs counting_normal (MonteCarloPricer_new counting_seed demo_config)
          (Fin 100) (Fin 100) (Fin 0) (Fin 1) (Fin 1))) ! 1 = Fin 0 \<and>
   fst (price_european_call_and_put counting_normal
          (MonteCarloPricer_new counting_seed demo_config)
          (Fin 100) (Fin 100) (Fin 0) (Fin 1) (Fin 1))
     = \<lparr>call = compute_statistics [Fin 0, Fin (100 * exp (1 / 2) - 100)] (Fin 1),
        put = compute_statistics [Fin (100 - 100 * exp (- (1 / 2))), Fin 0] (Fin 1)\<rparr>"
proof -
  have i: "(0::nat) < 2" "(1::nat) < 2"
    by simp_all
  note t = paired_payoffs[of "MonteCarloPricer_new counting_seed demo_config" "Fin 100" "Fin 0"
      "Fin 1" "Fin 1" counting_normal "Fin 100",
      unfolded Let_def case_prod_beta demo_run(1,2,3)]
  have e: "[Fin (100 * exp (- (1 / 2))), Fin (100 * exp (1 / 2))] ! 0
             = Fin (100 * exp (- (1 / 2)))"
    "[Fin (100 * exp (- (1 / 2))), Fin (100 * exp (1 / 2))] ! 1 = Fin (100 * exp (1 / 2))"
    by simp_all
  have m: "map (\<lambda>ST. std_max (ST - Fin 100) (Fin 0))
             [Fin (100 * exp (- (1 / 2))), Fin (100 * exp (1 / 2))]
             = [Fin 0, Fin (100 * exp (1 / 2) - 100)]"
    "map (\<lambda>ST. std_max (Fin 100 - ST) (Fin 0))
             [Fin (100 * exp (- (1 / 2))), Fin (100 * exp (1 / 2))]
             = [Fin (100 - 100 * exp (- (1 / 2))), Fin 0]"
    using demo_run(4-7) by simp_all
  from t i show ?thesis
    unfolding e m by (metis demo_run(1,4,5,6,7) e)
qed

text \<open>
  Claim C7.  From the same generator state and with the same trial count \<open>N\<close>, the two
  paths return the same result (both prices, both standard errors) and leave the pricer
  in the same state: the generator after exactly the first \<open>N\<close> variates.  Both build their
  payoffs by applying \<open>max(S(T) - K, 0)\<close> and \<open>max(K - S(T), 0)\<close>, with
  \<open>S(T) = S0 \<sqdot> exp((r - \<sigma>\<^sup>2/2)\<tau> + \<sigma>\<surd>\<tau> \<sqdot> Z)\<close>, to these \<open>N\<close> variates in order.  So the
  public operation returns the same whatever the policy.
\<close>

theorem sequential_parallel_equal:
  "let N = unat (num_simulations (m_config p));
       Zs = fst (draws normal N (m_rng p));
       g = snd (draws normal N (m_rng p));
       payoffs =
         (g, map (\<lambda>Z. std_max (terminal_price S0 r sigma time Z - K) (Fin 0)) Zs,
             map (\<lambda>Z. std_max (K - terminal_price S0 r sigma time Z) (Fin 0)) Zs)
   in sequential_payoffs normal p S0 K r sigma time = payoffs \<and>
      parallel_payoffs normal p S0 K r sigma time = payoffs \<and>
      price_european_call_and_put_sequential normal p S0 K r sigma time
        = price_european_call_and_put_parallel normal p S0 K r sigma time \<and>
      m_rng (snd (price_european_call_and_put_sequential normal p S0 K r sigma time)) = g \<and>
      m_rng (snd (price_european_call_and_put_parallel normal p S0 K r sigma time)) = g \<and>
      price_european_call_and_put normal p S0 K r sigma time
        = price_european_call_and_put_sequential normal p S0 K r sigma time"
  by (simp add: Let_def paths_equal[symmetric] price_european_call_and_put_cases
      price_european_call_and_put_sequential_def sequential_payoffs_eq parallel_payoffs_eq)

theorem sequential_parallel_equal_witness:
  "price_european_call_and_put_sequential counting_normal
       (MonteCarloPricer_new counting_seed demo_config) (Fin 100) (Fin 100) (Fin 0) (Fin 0) (Fin 1)
     = price_european_call_and_put_parallel counting_normal
       (MonteCarloPricer_new counting_seed demo_config) (Fin 100) (Fin 100) (Fin 0) (Fin 0) (Fin 1) \<and>
   m_rng (snd (price_european_call_and_put_parallel counting_normal
       (MonteCarloPricer_new counting_seed demo_config) (Fin 100) (Fin 100) (Fin 0) (Fin 0) (Fin 1)))
     = 2"
proof -
  have n: "unat (num_simulations (m_config (MonteCarloPricer_new counting_seed demo_config))) = 2"
    by (simp add: MonteCarloPricer_new_def demo_config_def)
  have d: "snd (draws counting_normal 2
                 (m_rng (MonteCarloPricer_new counting_seed demo_config))) = 2"
    by (simp add: MonteCarloPricer_new_def counting_seed_def counting_normal_def
        numeral_2_eq_2)
  show ?thesis
    using sequential_parallel_equal[of "MonteCarloPricer_new counting_seed demo_config"
        counting_normal "Fin 100" "Fin 0" "Fin 0" "Fin 1" "Fin 100"]
    unfolding Let_def n d by blast
qed

section \<open>The simulation engine: the statistics\<close>

lemma fold_sum_fp:
  "fold (\<lambda>payoff acc. acc + payoff) payoffs a = a + sum_list payoffs" for a :: fp
  by (induction payoffs arbitrary: a) (simp_all add: add.assoc)

lemma fold_variance_fp:
  "fold (\<lambda>payoff variance. variance + (payoff - m) * (payoff - m)) payoffs a
     = a + (\<Sum>payoff\<leftarrow>payoffs. (payoff - m) * (payoff - m))" for a :: fp
  by (induction payoffs arbitrary: a) (simp_all add: add.assoc)

lemma sum_list_Fin: "sum_list (map Fin ps) = Fin (sum_list ps)"
  by (induction ps) (simp_all add: zero_fp_def)

lemma sum_list_squares_Fin:
  "(\<Sum>payoff\<leftarrow>map Fin ps. (payoff - Fin m) * (payoff - Fin m)) = Fin (\<Sum>p\<leftarrow>ps. (p - m)\<^sup>2)"
  by (induction ps) (simp_all add: zero_fp_def power2_eq_square)

lemma size_of_payoffs:
  assumes "n < 2 ^ 64"
  shows "of_size_t (word_of_nat n) = Fin (real n)"
    and "0 < n \<Longrightarrow> of_size_t (word_of_nat n - 1) = Fin (real n) - Fin 1"
proof -
  have u: "unat (word_of_nat n :: size_t) = n"
    using assms by (simp add: of_nat_inverse)
  then show "of_size_t (word_of_nat n) = Fin (real n)"
    by (simp add: of_size_t_def)
  assume pos: "0 < n"
  then have "(word_of_nat n :: size_t) \<noteq> 0"
    using u by (metis less_numeral_extra(3) unat_0)
  then have "unat (word_of_nat n - 1 :: size_t) = n - 1"
    using u by (simp add: unat_minus_one)
  then show "of_size_t (word_of_nat n - 1) = Fin (real n) - Fin 1"
    using pos by (simp add: of_size_t_def of_nat_diff)
qed

text \<open>
  On every sample of at least one payoff: the two loops are sums, and \<open>N - 1\<close> does not
  wrap.
\<close>

lemma statistics_sums:
  assumes "0 < length payoffs" and "length payoffs < 2 ^ 64"
  shows "compute_statistics payoffs discount =
           (let N = Fin (real (length payoffs));
                mean = sum_list payoffs / N;
                variance = (\<Sum>payoff\<leftarrow>payoffs. (payoff - mean) * (payoff - mean))
                             / (N - Fin 1);
                std_error = std_sqrt (variance / N)
            in \<lparr>price = discount * mean, standard_error = discount * std_error\<rparr>)"
proof -
  have z: "Fin 0 + x = x" for x :: fp
    using add_0_left[of x] by (simp only: zero_fp_def)
  show ?thesis
    unfolding compute_statistics_def Let_def fold_sum_fp fold_variance_fp z
      size_of_payoffs(1)[OF assms(2)] size_of_payoffs(2)[OF assms(2,1)]
    by (rule refl)
qed

lemma statistics_reals:
  assumes "2 \<le> length ps" and "length ps < 2 ^ 64"
  shows "compute_statistics (map Fin ps) (Fin d) =
           (let N = real (length ps);
                mean = sum_list ps / N;
                variance = (\<Sum>payoff\<leftarrow>ps. (payoff - mean)\<^sup>2) / (N - 1);
                std_error = sqrt (variance / N)
            in \<lparr>price = Fin (d * mean), standard_error = Fin (d * std_error)\<rparr>)"
proof -
  define N where "N = real (length ps)"
  define mean where "mean = sum_list ps / N"
  define sq where "sq = (\<Sum>payoff\<leftarrow>ps. (payoff - mean)\<^sup>2)"
  have "2 \<le> N"
    using assms(1) by (simp add: N_def)
  then have N: "N \<noteq> 0" "N - 1 \<noteq> 0" "0 < N" "0 < N - 1"
    by linarith+
  have "0 < length ps"
    using assms(1) by linarith
  then have l: "0 < length (map Fin ps)" "length (map Fin ps) < 2 ^ 64"
    using assms(2) by (simp_all only: length_map)
  have m: "sum_list (map Fin ps) / Fin N = Fin mean"
    using N(1) by (simp add: sum_list_Fin mean_def)
  have v: "(\<Sum>payoff\<leftarrow>map Fin ps. (payoff - Fin mean) * (payoff - Fin mean)) / (Fin N - Fin 1)
             = Fin (sq / (N - 1))"
    unfolding sum_list_squares_Fin sq_def[symmetric] using N(2) by simp
  have "0 \<le> sq"
    unfolding sq_def by (rule sum_list_nonneg) auto
  then have nn: "\<not> sq / (N - 1) / N < 0"
    using N(3,4) by (simp add: not_less)
  have e: "std_sqrt (Fin (sq / (N - 1)) / Fin N) = Fin (sqrt (sq / (N - 1) / N))"
    using N(1) nn by simp
  have "compute_statistics (map Fin ps) (Fin d) =
          \<lparr>price = Fin (d * mean), standard_error = Fin (d * sqrt (sq / (N - 1) / N))\<rparr>"
    unfolding statistics_sums[OF l] Let_def length_map N_def[symmetric] m v e by simp
  then show ?thesis
    by (simp add: Let_def N_def mean_def sq_def)
qed

text \<open>
  Claim C8.  For every sample of \<open>N \<ge> 2\<close> payoffs (a vector has fewer than \<open>2\<^sup>6\<^sup>4\<close>
  elements) and every discount factor, with \<open>mean = (\<Sum>payoff) / N\<close>,
  \<open>variance = (\<Sum>(payoff - mean)\<^sup>2) / (N - 1)\<close> and \<open>std_error = \<surd>(variance / N)\<close>, the
  reduction returns the price \<open>discount \<sqdot> mean\<close> and the standard error
  \<open>discount \<sqdot> std_error\<close>: in the arithmetic of \<open>T\<close> for every sample, and as
  real numbers when the payoffs and the discount factor are finite.
\<close>

theorem statistics_reduction:
  assumes "2 \<le> length payoffs" and "length payoffs < 2 ^ 64"
  shows "compute_statistics payoffs discount =
           (let N = Fin (real (length payoffs));
                mean = sum_list payoffs / N;
                variance = (\<Sum>payoff\<leftarrow>payoffs. (payoff - mean) * (payoff - mean))
                             / (N - Fin 1);
                std_error = std_sqrt (variance / N)
            in \<lparr>price = discount * mean, standard_error = discount * std_error\<rparr>) \<and>
         (\<forall>ps d. payoffs = map Fin ps \<and> discount = Fin d \<longrightarrow>
            compute_statistics payoffs discount =
              (let N = real (length ps);
                   mean = sum_list ps / N;
                   variance = (\<Sum>payoff\<leftarrow>ps. (payoff - mean)\<^sup>2) / (N - 1);
                   std_error = sqrt (variance / N)
               in \<lparr>price = Fin (d * mean), standard_error = Fin (d * std_error)\<rparr>))"
proof (intro conjI allI impI)
  have "0 < length payoffs"
    using assms(1) by linarith
  then show "compute_statistics payoffs discount =
           (let N = Fin (real (length payoffs));
                mean = sum_list payoffs / N;
                variance = (\<Sum>payoff\<leftarrow>payoffs. (payoff - mean) * (payoff - mean))
                             / (N - Fin 1);
                std_error = std_sqrt (variance / N)
            in \<lparr>price = discount * mean, standard_error = discount * std_error\<rparr>)"
    using assms(2) by (rule statistics_sums)
next
  fix ps d
  assume e: "payoffs = map Fin ps \<and> discount = Fin d"
  then have "2 \<le> length ps" "length ps < 2 ^ 64"
    using assms by simp_all
  then show "compute_statistics payoffs discount =
              (let N = real (length ps);
                   mean = sum_list ps / N;
                   variance = (\<Sum>payoff\<leftarrow>ps. (payoff - mean)\<^sup>2) / (N - 1);
                   std_error = sqrt (variance / N)
               in \<lparr>price = Fin (d * mean), standard_error = Fin (d * std_error)\<rparr>)"
    using e statistics_reals[of ps d] by simp
qed

theorem statistics_reduction_witness:
  "compute_statistics (map Fin [1, 3]) (Fin 1) = \<lparr>price = Fin 2, standard_error = Fin 1\<rparr>"
proof -
  have l: "2 \<le> length (map Fin [1, 3])" "length (map Fin [1, 3]) < 2 ^ 64"
    by simp_all
  have "compute_statistics (map Fin [1, 3]) (Fin 1) =
          (let N = real (length [1, 3 :: real]);
               mean = sum_list [1, 3] / N;
               variance = (\<Sum>payoff\<leftarrow>[1, 3]. (payoff - mean)\<^sup>2) / (N - 1);
               std_error = sqrt (variance / N)
           in \<lparr>price = Fin (1 * mean), standard_error = Fin (1 * std_error)\<rparr>)"
    using statistics_reduction[OF l, of "Fin 1"] by blast
  then show ?thesis
    by (simp add: Let_def)
qed

text \<open>With no trial the mean is \<open>0 / 0\<close>; with one trial the variance is divided by \<open>0\<close>.\<close>

lemma compute_statistics_Nil:
  "compute_statistics [] d = \<lparr>price = NaN, standard_error = NaN\<rparr>"
  by (simp add: compute_statistics_def of_size_t_def)

lemma compute_statistics_single:
  "standard_error (compute_statistics [x] d) = NaN"
  by (cases x) (simp_all add: compute_statistics_def of_size_t_def Let_def minus_fp_def)

lemma no_trial:
  assumes "num_simulations (m_config p) = 0"
  shows "fst (price_european_call_and_put normal p S0 K r sigma time) =
           \<lparr>call = \<lparr>price = NaN, standard_error = NaN\<rparr>,
            put = \<lparr>price = NaN, standard_error = NaN\<rparr>\<rparr>"
  using assms
  by (simp add: price_european_call_and_put_cases price_european_call_and_put_sequential_def
      sequential_payoffs_eq compute_statistics_Nil)

lemma single_trial:
  assumes "num_simulations (m_config p) = 1"
  shows "standard_error (call (fst (price_european_call_and_put normal p S0 K r sigma time)))
           = NaN"
    and "standard_error (put (fst (price_european_call_and_put normal p S0 K r sigma time)))
           = NaN"
  using assms
  by (simp_all add: price_european_call_and_put_cases
      price_european_call_and_put_sequential_def sequential_payoffs_eq case_prod_beta
      Let_def compute_statistics_single)

text \<open>
  Claim C1, as amended.  Constructing the pricer never fails: the create info has no
  validation, and the constructor stores every configuration, whatever the trial count
  \<open>N\<close>.  A pricer with \<open>N = 0\<close> returns NaN for both prices and both standard errors; a
  pricer with \<open>N = 1\<close> returns NaN for both standard errors.
\<close>

theorem every_trial_count_accepted:
  "m_config (MonteCarloPricer_new mt19937 config) = config \<and>
   m_rng (MonteCarloPricer_new mt19937 config) = mt19937 (seed config) \<and>
   (num_simulations (m_config p) = 0 \<longrightarrow>
      fst (price_european_call_and_put normal p S0 K r sigma time) =
        \<lparr>call = \<lparr>price = NaN, standard_error = NaN\<rparr>,
         put = \<lparr>price = NaN, standard_error = NaN\<rparr>\<rparr>) \<and>
   (num_simulations (m_config p) = 1 \<longrightarrow>
      standard_error (call (fst (price_european_call_and_put normal p S0 K r sigma time)))
        = NaN \<and>
      standard_error (put (fst (price_european_call_and_put normal p S0 K r sigma time)))
        = NaN)"
  using no_trial[of p normal S0 K r sigma time] single_trial[of p normal S0 K r sigma time]
  by (simp add: MonteCarloPricer_new_def)

theorem every_trial_count_accepted_witness:
  "m_config (MonteCarloPricer_new counting_seed zero_trial_config) = zero_trial_config \<and>
   num_simulations zero_trial_config = 0 \<and>
   fst (price_european_call_and_put counting_normal
          (MonteCarloPricer_new counting_seed zero_trial_config)
          (Fin 100) (Fin 100) (Fin 0.05) (Fin 0.20) (Fin 1)) =
     \<lparr>call = \<lparr>price = NaN, standard_error = NaN\<rparr>,
      put = \<lparr>price = NaN, standard_error = NaN\<rparr>\<rparr> \<and>
   m_config (MonteCarloPricer_new counting_seed single_trial_config) = single_trial_config \<and>
   num_simulations single_trial_config = 1 \<and>
   standard_error (put (fst (price_european_call_and_put counting_normal
          (MonteCarloPricer_new counting_seed single_trial_config)
          (Fin 100) (Fin 100) (Fin 0.05) (Fin 0.20) (Fin 1)))) = NaN"
proof -
  have c: "m_config (MonteCarloPricer_new counting_seed zero_trial_config) = zero_trial_config"
    "m_config (MonteCarloPricer_new counting_seed single_trial_config) = single_trial_config"
    by (simp_all add: MonteCarloPricer_new_def)
  have n: "num_simulations zero_trial_config = 0" "num_simulations single_trial_config = 1"
    by (simp_all add: zero_trial_config_def single_trial_config_def)
  show ?thesis
    using every_trial_count_accepted[of counting_seed zero_trial_config
        "MonteCarloPricer_new counting_seed zero_trial_config" counting_normal
        "Fin 100" "Fin 100" "Fin 0.05" "Fin 0.20" "Fin 1"]
      every_trial_count_accepted[of counting_seed single_trial_config
        "MonteCarloPricer_new counting_seed single_trial_config" counting_normal
        "Fin 100" "Fin 100" "Fin 0.05" "Fin 0.20" "Fin 1"] n
    unfolding c by blast
qed

text \<open>
  Claim C1, as stated, fails at \<open>N = 1\<close>: the pricer is constructed, the pricing call
  reaches the variance computation, and the standard error returned is NaN.
\<close>

theorem trial_count_counterexample:
  "m_config (MonteCarloPricer_new counting_seed single_trial_config) = single_trial_config \<and>
   num_simulations single_trial_config = 1 \<and>
   standard_error (call (fst (price_european_call_and_put counting_normal
       (MonteCarloPricer_new counting_seed single_trial_config)
       (Fin 100) (Fin 100) (Fin 0.05) (Fin 0.20) (Fin 1)))) = NaN"
  by (simp add: MonteCarloPricer_new_def single_trial_config_def single_trial(1))

end
